theory Spec2Isabelle
  imports Complex_Main "HOL-Library.Finite_Map"
begin

section \<open>Vector kernel of \<^verbatim>\<open>Engine::Mesh\<close> (src/engine/mesh.h)\<close>

text \<open>
  Every \<^verbatim>\<open>std::valarray<double>\<close> the engine builds has three components
  (\<^verbatim>\<open>Object\<close> constructs them from \<^verbatim>\<open>std::array<double, 3>\<close>, the meshes
  from three-element initialiser lists), so a vector is a triple. A \<^verbatim>\<open>double\<close> is
  idealised as a real number: rounding, infinities and NaN are outside this model. The
  valarray operators \<^verbatim>\<open>+\<close>, \<^verbatim>\<open>-\<close>, \<^verbatim>\<open>*\<close> work componentwise.
\<close>

type_synonym vec = "real \<times> real \<times> real"

fun vadd :: "vec \<Rightarrow> vec \<Rightarrow> vec" where
  "vadd (a0, a1, a2) (b0, b1, b2) = (a0 + b0, a1 + b1, a2 + b2)"

fun vsub :: "vec \<Rightarrow> vec \<Rightarrow> vec" where
  "vsub (a0, a1, a2) (b0, b1, b2) = (a0 - b0, a1 - b1, a2 - b2)"

fun vmul :: "vec \<Rightarrow> vec \<Rightarrow> vec" where
  "vmul (a0, a1, a2) (b0, b1, b2) = (a0 * b0, a1 * b1, a2 * b2)"

fun smul :: "real \<Rightarrow> vec \<Rightarrow> vec" where
  "smul k (a0, a1, a2) = (k * a0, k * a1, k * a2)"

fun vsum :: "vec \<Rightarrow> real" where
  "vsum (a0, a1, a2) = a0 + a1 + a2"

text \<open>\<^verbatim>\<open>Mesh::zero\<close>: no component is truthy, that is, every component is exactly 0.\<close>

fun zero_v :: "vec \<Rightarrow> bool" where
  "zero_v (a0, a1, a2) = (\<not> (a0 \<noteq> 0) \<and> \<not> (a1 \<noteq> 0) \<and> \<not> (a2 \<noteq> 0))"

definition dot :: "vec \<Rightarrow> vec \<Rightarrow> real" where
  "dot ray_1 ray_2 = vsum (vmul ray_1 ray_2)"

definition clamp :: "real \<Rightarrow> real \<Rightarrow> real \<Rightarrow> real" where
  "clamp v min_value max_value =
     (if v > max_value then max_value
      else if v < min_value then min_value
      else v)"

definition norm2 :: "vec \<Rightarrow> real" where
  "norm2 ray = dot ray ray"

definition norm_v :: "vec \<Rightarrow> real" where
  "norm_v ray = sqrt (norm2 ray)"

definition distance :: "vec \<Rightarrow> vec \<Rightarrow> real" where
  "distance point_1 point_2 = norm_v (vsub point_1 point_2)"

text \<open>
  The quotient of two doubles. HOL's \<open>x / 0\<close> is \<open>0\<close>, which would hide a division by
  zero, so the model's division says when its divisor is zero: \<open>None\<close> stands for
  the infinity or NaN the machine division would produce.
\<close>

definition fdiv :: "real \<Rightarrow> real \<Rightarrow> real option" where
  "fdiv a b = (if b = 0 then None else Some (a / b))"

text \<open>
  \<^verbatim>\<open>Mesh::distanceRayToPoint\<close>. The out-parameter \<^verbatim>\<open>near_point\<close> is passed in and
  returned next to the distance; the early return of the degenerate branch leaves it as
  it came. The parameter \<^verbatim>\<open>infinite\<close> is named \<open>is_infinite\<close> here.
\<close>

definition distanceRayToPoint :: "vec \<Rightarrow> vec \<Rightarrow> vec \<Rightarrow> vec \<Rightarrow> bool \<Rightarrow> (real \<times> vec) option" where
  "distanceRayToPoint ray_start ray_end point near_point is_infinite =
     (let delta_ray = vsub ray_end ray_start;
          length_pow = norm2 delta_ray
      in if length_pow = 0 then Some (distance point ray_start, near_point)
         else (case fdiv (vsum (vmul (vsub point ray_start) delta_ray)) length_pow of
                 None \<Rightarrow> None
               | Some param0 \<Rightarrow>
                   let param = (if \<not> is_infinite then clamp param0 0 1 else param0);
                       near_point' = vadd ray_start (smul param delta_ray)
                   in Some (distance point near_point', near_point')))"

text \<open>\<^verbatim>\<open>Mesh::collisionSpheres\<close>.\<close>

definition collisionSpheres :: "vec \<Rightarrow> real \<Rightarrow> vec \<Rightarrow> real \<Rightarrow> bool" where
  "collisionSpheres position_1 radius_1 position_2 radius_2 =
     (distance position_1 position_2 \<le> (radius_1 + radius_2))"

text \<open>
  \<^verbatim>\<open>Mesh::collisionRaySphere\<close>: the comparison \<^verbatim>\<open>distanceRayToPoint(...) <= circle_radius\<close>.
  A comparison with NaN is false on the machine, which is the \<open>None\<close> branch.
\<close>

definition collisionRaySphere :: "vec \<Rightarrow> vec \<Rightarrow> vec \<Rightarrow> real \<Rightarrow> vec \<Rightarrow> bool \<Rightarrow> bool \<times> vec" where
  "collisionRaySphere ray_start ray_end circle_center circle_radius near_point is_infinite =
     (case distanceRayToPoint ray_start ray_end circle_center near_point is_infinite of
        None \<Rightarrow> (False, near_point)
      | Some (d, near_point') \<Rightarrow> (d \<le> circle_radius, near_point'))"

text \<open>
  \<^verbatim>\<open>Mesh::collisionPointRectangle2D\<close> and \<^verbatim>\<open>Mesh::collisionRectangles2D\<close> are declared in
  mesh.h and defined in a file that is not part of the sources at hand. The functions
  that call them take them as the parameters \<open>cPR\<close> and \<open>cRR\<close>; \<open>cRR\<close> receives
  the out-parameter \<^verbatim>\<open>near_point\<close> and returns it next to its verdict.
\<close>

type_synonym point_rect_test = "vec \<Rightarrow> vec \<Rightarrow> vec \<Rightarrow> vec \<Rightarrow> vec \<Rightarrow> bool"

type_synonym rect_rect_test =
  "vec \<Rightarrow> vec \<Rightarrow> vec \<Rightarrow> vec \<Rightarrow> vec \<Rightarrow> vec \<Rightarrow> vec \<Rightarrow> vec \<Rightarrow> vec \<Rightarrow> bool \<times> vec"

text \<open>
  \<^verbatim>\<open>Mesh::collisionRectangleCircle2D\<close>. The four edge tests are joined by \<^verbatim>\<open>||\<close>: a later
  one runs only when the earlier ones failed, and each one that runs may overwrite
  \<^verbatim>\<open>near_point\<close>. The last test passes its arguments to
  \<^verbatim>\<open>collisionPointRectangle2D\<close> in the order the source writes them: the four corners
  first, the circle's center last. The declaration of that function in mesh.h names
  its parameters \<^verbatim>\<open>point\<close>, \<^verbatim>\<open>rect_top_left\<close>, \<^verbatim>\<open>rect_bottom_left\<close>,
  \<^verbatim>\<open>rect_bottom_right\<close>, \<^verbatim>\<open>rect_top_right\<close>, in this order.
\<close>

definition collisionRectangleCircle2D ::
  "point_rect_test \<Rightarrow> vec \<Rightarrow> vec \<Rightarrow> vec \<Rightarrow> vec \<Rightarrow> vec \<Rightarrow> real \<Rightarrow> vec \<Rightarrow> bool \<times> vec" where
  "collisionRectangleCircle2D cPR rect_top_left rect_bottom_left rect_bottom_right rect_top_right
       circle_center circle_radius near_point =
     (case collisionRaySphere rect_top_left rect_top_right circle_center circle_radius near_point False of
        (hit1, np1) \<Rightarrow>
      if hit1 then (True, np1) else
     (case collisionRaySphere rect_top_right rect_bottom_right circle_center circle_radius np1 False of
        (hit2, np2) \<Rightarrow>
      if hit2 then (True, np2) else
     (case collisionRaySphere rect_bottom_left rect_bottom_right circle_center circle_radius np2 False of
        (hit3, np3) \<Rightarrow>
      if hit3 then (True, np3) else
     (case collisionRaySphere rect_top_left rect_bottom_left circle_center circle_radius np3 False of
        (hit4, np4) \<Rightarrow>
      if hit4 then (True, np4) else
      if cPR rect_top_left rect_bottom_left rect_bottom_right rect_top_right circle_center
      then (True, circle_center)
      else (False, np4)))))"

section \<open>The shape classes\<close>

text \<open>
  The four classes \<^verbatim>\<open>Mesh\<close>, \<^verbatim>\<open>Rectangle2D\<close>, \<^verbatim>\<open>Polygon2D\<close> and \<^verbatim>\<open>Sphere2D\<close> with
  their fields. A rectangle stores its three derived corners, as the class does. The
  list of child meshes is read by \<^verbatim>\<open>draw\<close> only and is left out.
\<close>

datatype mesh =
    Mesh (getPosition: vec)
  | Rectangle2D (getPosition: vec) (getWidth: real) (getHeight: real) (getAngle: real)
      (getTopRightPosition: vec) (getBottomLeftPosition: vec) (getBottomRightPosition: vec)
  | Polygon2D (getPosition: vec) (getRadius: real) (getAngle: real) (sides: int)
  | Sphere2D (getPosition: vec) (getRadius: real) (getAngle: real) (sides: int)

fun getType :: "mesh \<Rightarrow> string" where
  "getType (Mesh _) = ''mesh''"
| "getType (Rectangle2D _ _ _ _ _ _ _) = ''rectangle2d''"
| "getType (Polygon2D _ _ _ _) = ''polygon2d''"
| "getType (Sphere2D _ _ _ _) = ''sphere2d''"

definition getTopLeftPosition :: "mesh \<Rightarrow> vec" where
  "getTopLeftPosition m = getPosition m"

definition DEG90 :: real where
  "DEG90 = pi / 2"

text \<open>\<^verbatim>\<open>Rectangle2D::updatePositions\<close>: the derived corners from position, size and angle.\<close>

fun updatePositions :: "mesh \<Rightarrow> mesh" where
  "updatePositions (Rectangle2D position w h angle tr bl br) =
     (let height_angle = angle - DEG90;
          delta_height = (h * cos height_angle, h * sin height_angle, 0);
          top_right = vadd position (w * cos angle, w * sin angle, 0)
      in Rectangle2D position w h angle
           top_right (vadd position delta_height) (vadd top_right delta_height))"
| "updatePositions m = m"

text \<open>The constructors. A \<^verbatim>\<open>Sphere2D\<close> is a polygon of 100 sides and angle 0.\<close>

definition new_Rectangle2D :: "vec \<Rightarrow> real \<Rightarrow> real \<Rightarrow> real \<Rightarrow> mesh" where
  "new_Rectangle2D position w h angle =
     updatePositions (Rectangle2D position w h angle (0, 0, 0) (0, 0, 0) (0, 0, 0))"

definition new_Polygon2D :: "vec \<Rightarrow> real \<Rightarrow> int \<Rightarrow> real \<Rightarrow> mesh" where
  "new_Polygon2D position radius n angle = Polygon2D position radius angle n"

definition new_Sphere2D :: "vec \<Rightarrow> real \<Rightarrow> mesh" where
  "new_Sphere2D position radius = Sphere2D position radius 0 100"

text \<open>
  \<^verbatim>\<open>std::atan2\<close> of the C library on real numbers: the angle of the point \<open>(x, y)\<close> in
  \<open>(-pi, pi]\<close>, and 0 at the origin.
\<close>

definition atan2 :: "real \<Rightarrow> real \<Rightarrow> real" where
  "atan2 y x =
     (if 0 < x then arctan (y / x)
      else if x < 0 then (if 0 \<le> y then arctan (y / x) + pi else arctan (y / x) - pi)
      else if 0 < y then pi / 2
      else if y < 0 then - (pi / 2)
      else 0)"

text \<open>
  The virtual \<^verbatim>\<open>getCollisionSpace\<close>: \<^verbatim>\<open>nullptr\<close> in \<^verbatim>\<open>Mesh\<close>, which \<^verbatim>\<open>Rectangle2D\<close>
  inherits; the swept rectangle in \<^verbatim>\<open>Polygon2D\<close>, which \<^verbatim>\<open>Sphere2D\<close> inherits.
\<close>

definition Polygon2D_getCollisionSpace :: "vec \<Rightarrow> real \<Rightarrow> vec \<Rightarrow> mesh" where
  "Polygon2D_getCollisionSpace position radius speed =
     (let angle = atan2 (fst (snd speed)) (fst speed);
          difference = (radius * cos (angle + DEG90), radius * sin (angle + DEG90), 0);
          top_position = vadd position difference
      in new_Rectangle2D top_position (norm_v speed) (radius * 2) angle)"

fun getCollisionSpace :: "mesh \<Rightarrow> vec \<Rightarrow> mesh option" where
  "getCollisionSpace (Mesh _) speed = None"
| "getCollisionSpace (Rectangle2D _ _ _ _ _ _ _) speed = None"
| "getCollisionSpace (Polygon2D position radius _ _) speed =
     Some (Polygon2D_getCollisionSpace position radius speed)"
| "getCollisionSpace (Sphere2D position radius _ _) speed =
     Some (Polygon2D_getCollisionSpace position radius speed)"

lemma getCollisionSpace_Some:
  "getCollisionSpace m speed = Some sp \<Longrightarrow>
     getCollisionSpace m (0, 0, 0) \<noteq> None \<and> getCollisionSpace sp (0, 0, 0) = None"
  by (cases m)
     (auto simp: Polygon2D_getCollisionSpace_def new_Rectangle2D_def Let_def)

text \<open>The number of operands that own a swept shape; it bounds the nesting of the
  continuous phase.\<close>

definition movers :: "mesh \<Rightarrow> mesh \<Rightarrow> nat" where
  "movers a b =
     (if getCollisionSpace a (0, 0, 0) = None then 0 else 1) +
     (if getCollisionSpace b (0, 0, 0) = None then 0 else 1)"

text \<open>
  The virtual \<^verbatim>\<open>detectCollision\<close>. \<open>detectCollision\<close> is the call through a
  \<^verbatim>\<open>Mesh *\<close>: it runs the override of the receiver's class, \<^verbatim>\<open>Rectangle2D::detectCollision\<close>
  or \<^verbatim>\<open>Polygon2D::detectCollision\<close>, each of which ends in the base method;
  \<open>Mesh_detectCollision\<close> is the base method \<^verbatim>\<open>Mesh::detectCollision\<close>. The
  out-parameter \<^verbatim>\<open>point\<close> is passed along and returned with the verdict. The base
  method first runs its continuous block, which yields a hit or falls through, and then
  the retry with the operands swapped.
\<close>

function detectCollision ::
    "rect_rect_test \<Rightarrow> point_rect_test \<Rightarrow> mesh \<Rightarrow> mesh \<Rightarrow> vec \<Rightarrow> vec \<Rightarrow> vec \<Rightarrow> vec \<Rightarrow> vec \<Rightarrow> bool
      \<Rightarrow> bool \<times> vec"
  and Mesh_detectCollision ::
    "rect_rect_test \<Rightarrow> point_rect_test \<Rightarrow> mesh \<Rightarrow> mesh \<Rightarrow> vec \<Rightarrow> vec \<Rightarrow> vec \<Rightarrow> vec \<Rightarrow> vec \<Rightarrow> bool
      \<Rightarrow> bool \<times> vec"
where
  "detectCollision cRR cPR this other my_offset my_speed other_offset other_speed point try_inverse =
     (if getType this = ''rectangle2d'' then
        (if getType other = ''rectangle2d'' then
           (case cRR (vadd my_offset (getTopLeftPosition this))
                     (vadd my_offset (getBottomLeftPosition this))
                     (vadd my_offset (getBottomRightPosition this))
                     (vadd my_offset (getTopRightPosition this))
                     (vadd other_offset (getTopLeftPosition other))
                     (vadd other_offset (getBottomLeftPosition other))
                     (vadd other_offset (getBottomRightPosition other))
                     (vadd other_offset (getTopRightPosition other))
                     point of
              (hit, point') \<Rightarrow>
                if hit then (True, point')
                else Mesh_detectCollision cRR cPR this other my_offset my_speed
                       other_offset other_speed point' try_inverse)
         else Mesh_detectCollision cRR cPR this other my_offset my_speed
                other_offset other_speed point try_inverse)
      else if getType this = ''polygon2d'' \<or> getType this = ''sphere2d'' then
        (if getType other = ''polygon2d'' \<or> getType other = ''sphere2d'' then
           (let point' = smul 0.5 (vadd (getPosition this) (getPosition other))
            in if collisionSpheres (vadd my_offset (getPosition this)) (getRadius this)
                    (vadd other_offset (getPosition other)) (getRadius other)
               then (True, point')
               else Mesh_detectCollision cRR cPR this other my_offset my_speed
                      other_offset other_speed point' try_inverse)
         else if getType other = ''rectangle2d'' then
           (case collisionRectangleCircle2D cPR
                     (vadd other_offset (getTopLeftPosition other))
                     (vadd other_offset (getBottomLeftPosition other))
                     (vadd other_offset (getBottomRightPosition other))
                     (vadd other_offset (getTopRightPosition other))
                     (vadd my_offset (getPosition this))
                     (getRadius this)
                     point of
              (hit, point') \<Rightarrow>
                if hit then (True, point')
                else Mesh_detectCollision cRR cPR this other my_offset my_speed
                       other_offset other_speed point' try_inverse)
         else Mesh_detectCollision cRR cPR this other my_offset my_speed
                other_offset other_speed point try_inverse)
      else Mesh_detectCollision cRR cPR this other my_offset my_speed
             other_offset other_speed point try_inverse)"
| "Mesh_detectCollision cRR cPR this other my_offset my_speed other_offset other_speed point try_inverse =
     (case (if \<not> (zero_v my_speed \<and> zero_v other_speed) then
              (let stopped = (0, 0, 0)
               in case getCollisionSpace this my_speed of
                    None \<Rightarrow> (False, point)
                  | Some my_space \<Rightarrow>
                      (case detectCollision cRR cPR my_space other my_offset stopped
                              other_offset other_speed point try_inverse of
                         (hit1, point1) \<Rightarrow>
                           if hit1 then (True, point1)
                           else (case getCollisionSpace other other_speed of
                                   None \<Rightarrow> (False, point1)
                                 | Some other_space \<Rightarrow>
                                     detectCollision cRR cPR my_space other_space my_offset stopped
                                       other_offset stopped point1 try_inverse)))
            else (False, point)) of
        (hit, point') \<Rightarrow>
          if hit then (True, point')
          else if try_inverse
               then detectCollision cRR cPR other this other_offset other_speed
                      my_offset my_speed point' False
               else (False, point'))"
  by pat_completeness auto

termination
proof (relation "measure (\<lambda>x. case x of
          Inl (cRR, cPR, this, other, mo, ms, oo, os, pt, ti) \<Rightarrow>
            2 * (2 * movers this other + (if ti then 1 else 0)) + 1
        | Inr (cRR, cPR, this, other, mo, ms, oo, os, pt, ti) \<Rightarrow>
            2 * (2 * movers this other + (if ti then 1 else 0)))")
qed (auto simp: movers_def dest: getCollisionSpace_Some)

declare detectCollision.simps [simp del]

declare Mesh_detectCollision.simps [simp del]

section \<open>Rectangle tests\<close>

text \<open>\<^verbatim>\<open>Mesh::cross\<close>, \<^verbatim>\<open>Mesh::areaTriangle2D\<close>, \<^verbatim>\<open>Mesh::areaRectangle2D\<close> and
  \<^verbatim>\<open>Mesh::edgesRectangle2D\<close>.\<close>

fun cross :: "vec \<Rightarrow> vec \<Rightarrow> vec" where
  "cross (a0, a1, a2) (b0, b1, b2) =
     (a1 * b2 - b1 * a2, a2 * b0 - b2 * a0, a0 * b1 - b0 * a1)"

fun areaTriangle2D :: "vec \<Rightarrow> vec \<Rightarrow> vec \<Rightarrow> real" where
  "areaTriangle2D (x1, y1, z1) (x2, y2, z2) (x3, y3, z3) =
     \<bar>(x1 * (y2 - y3) + x2 * (y3 - y1) + x3 * (y1 - y2)) * 0.5\<bar>"

definition areaRectangle2D :: "vec \<Rightarrow> vec \<Rightarrow> vec \<Rightarrow> real" where
  "areaRectangle2D rect_top_left rect_bottom_left rect_bottom_right =
     norm_v (vsub rect_bottom_left rect_top_left) *
     norm_v (vsub rect_bottom_right rect_bottom_left)"

definition edgesRectangle2D :: "vec \<Rightarrow> vec \<Rightarrow> vec \<Rightarrow> vec \<Rightarrow> (vec \<times> vec) list" where
  "edgesRectangle2D rect_top_left rect_bottom_left rect_bottom_right rect_top_right =
     [(rect_top_left, rect_bottom_left), (rect_bottom_left, rect_bottom_right),
      (rect_bottom_right, rect_top_right), (rect_top_right, rect_top_left)]"

text \<open>
  Modelled from the spec: \<^verbatim>\<open>Mesh::collisionPointRectangle2D\<close> is declared in mesh.h and
  defined outside the sources at hand. The specification uses it as the test that a
  point lies inside a rectangle ("either rectangle's reference point lies inside the
  other", "the circle's center lies inside the rectangle"). The model takes its
  parameters in the order of the declaration, the point first, and is the area test
  that the helpers \<^verbatim>\<open>areaTriangle2D\<close> and \<^verbatim>\<open>areaRectangle2D\<close> of mesh.h serve: the four
  triangles from the point to the edges cover no more than the rectangle. For four
  corners that do not form a rectangle the specification fixes no answer.
\<close>

definition collisionPointRectangle2D :: point_rect_test where
  "collisionPointRectangle2D point rect_top_left rect_bottom_left rect_bottom_right rect_top_right =
     (areaTriangle2D point rect_top_left rect_bottom_left
      + areaTriangle2D point rect_bottom_left rect_bottom_right
      + areaTriangle2D point rect_bottom_right rect_top_right
      + areaTriangle2D point rect_top_right rect_top_left
      \<le> areaRectangle2D rect_top_left rect_bottom_left rect_bottom_right)"

text \<open>
  Modelled from the spec: whether two edges of rectangles in the plane intersect. The
  orientation of a point relative to an edge is the third component of a cross product;
  two edges intersect when each separates the end points of the other, or an end point
  of one lies on the other.
\<close>

definition orientation2D :: "vec \<Rightarrow> vec \<Rightarrow> vec \<Rightarrow> real" where
  "orientation2D a b c = snd (snd (cross (vsub b a) (vsub c a)))"

text \<open>Modelled from the spec: part of the edge test above; the point \<open>c\<close> lies on
  the edge from \<open>a\<close> to \<open>b\<close>.\<close>

definition onEdge2D :: "vec \<Rightarrow> vec \<Rightarrow> vec \<Rightarrow> bool" where
  "onEdge2D a b c =
     (orientation2D a b c = 0
      \<and> min (fst a) (fst b) \<le> fst c \<and> fst c \<le> max (fst a) (fst b)
      \<and> min (fst (snd a)) (fst (snd b)) \<le> fst (snd c)
      \<and> fst (snd c) \<le> max (fst (snd a)) (fst (snd b)))"

text \<open>Modelled from the spec: "any edge of one intersects any edge of the other", for
  one pair of edges.\<close>

definition edgesIntersect2D :: "vec \<times> vec \<Rightarrow> vec \<times> vec \<Rightarrow> bool" where
  "edgesIntersect2D e f =
     (let a = fst e; b = snd e; c = fst f; d = snd f
      in (orientation2D a b c * orientation2D a b d < 0
          \<and> orientation2D c d a * orientation2D c d b < 0)
         \<or> onEdge2D a b c \<or> onEdge2D a b d \<or> onEdge2D c d a \<or> onEdge2D c d b)"

text \<open>
  Modelled from the spec: \<^verbatim>\<open>Mesh::collisionRectangles2D\<close> is declared in mesh.h and
  defined outside the sources at hand. The specification: true iff any edge of one
  rectangle intersects any edge of the other, or the reference point of either lies
  inside the other. The specification names no contact point for this test, and the
  model leaves \<^verbatim>\<open>near_point\<close> as it came.
\<close>

definition collisionRectangles2D :: rect_rect_test where
  "collisionRectangles2D rect_1_top_left rect_1_bottom_left rect_1_bottom_right rect_1_top_right
       rect_2_top_left rect_2_bottom_left rect_2_bottom_right rect_2_top_right near_point =
     (list_ex (\<lambda>e. list_ex (edgesIntersect2D e)
                 (edgesRectangle2D rect_2_top_left rect_2_bottom_left
                    rect_2_bottom_right rect_2_top_right))
        (edgesRectangle2D rect_1_top_left rect_1_bottom_left rect_1_bottom_right rect_1_top_right)
      \<or> collisionPointRectangle2D rect_1_top_left
           rect_2_top_left rect_2_bottom_left rect_2_bottom_right rect_2_top_right
      \<or> collisionPointRectangle2D rect_2_top_left
           rect_1_top_left rect_1_bottom_left rect_1_bottom_right rect_1_top_right,
      near_point)"

section \<open>Reading the collision test\<close>

text \<open>The part of the two overrides of \<^verbatim>\<open>detectCollision\<close> that comes before the call
  of the base method: the test for the pair of kinds at hand, if there is one.\<close>

definition narrow_phase ::
  "rect_rect_test \<Rightarrow> point_rect_test \<Rightarrow> mesh \<Rightarrow> mesh \<Rightarrow> vec \<Rightarrow> vec \<Rightarrow> vec \<Rightarrow> bool \<times> vec" where
  "narrow_phase cRR cPR this other my_offset other_offset point =
     (if getType this = ''rectangle2d'' then
        (if getType other = ''rectangle2d'' then
           cRR (vadd my_offset (getTopLeftPosition this))
               (vadd my_offset (getBottomLeftPosition this))
               (vadd my_offset (getBottomRightPosition this))
               (vadd my_offset (getTopRightPosition this))
               (vadd other_offset (getTopLeftPosition other))
               (vadd other_offset (getBottomLeftPosition other))
               (vadd other_offset (getBottomRightPosition other))
               (vadd other_offset (getTopRightPosition other))
               point
         else (False, point))
      else if getType this = ''polygon2d'' \<or> getType this = ''sphere2d'' then
        (if getType other = ''polygon2d'' \<or> getType other = ''sphere2d'' then
           (collisionSpheres (vadd my_offset (getPosition this)) (getRadius this)
              (vadd other_offset (getPosition other)) (getRadius other),
            smul 0.5 (vadd (getPosition this) (getPosition other)))
         else if getType other = ''rectangle2d'' then
           collisionRectangleCircle2D cPR
             (vadd other_offset (getTopLeftPosition other))
             (vadd other_offset (getBottomLeftPosition other))
             (vadd other_offset (getBottomRightPosition other))
             (vadd other_offset (getTopRightPosition other))
             (vadd my_offset (getPosition this))
             (getRadius this)
             point
         else (False, point))
      else (False, point))"

text \<open>The verdict of \<^verbatim>\<open>collisionRaySphere\<close>, which the contact point passed in does not
  enter.\<close>

definition ray_hit :: "vec \<Rightarrow> vec \<Rightarrow> vec \<Rightarrow> real \<Rightarrow> bool \<Rightarrow> bool" where
  "ray_hit s e c r u = fst (collisionRaySphere s e c r (0, 0, 0) u)"

section \<open>Objects (src/object.h)\<close>

text \<open>
  An \<^verbatim>\<open>Object *\<close> is an address or \<^verbatim>\<open>NULL\<close> (\<open>None\<close>). The store maps the
  addresses of the objects whose storage is allocated to their fields. Reading or
  writing a field through a pointer that is \<^verbatim>\<open>NULL\<close> or whose storage is not allocated,
  and a virtual call through such a pointer, is undefined behaviour: the operation
  yields \<open>None\<close>. Calling a non-virtual method through such a pointer is modelled as
  the code relies on it (\<^verbatim>\<open>update\<close> is called on children that may have been freed):
  nothing goes wrong until a field is touched.

  The \<^verbatim>\<open>std::unordered_set\<close> of children is a list without repetitions; the set's
  iteration order is unspecified and the list fixes one. The hooks are the empty bodies
  of the class, and every call of one is recorded in \<open>trace\<close>, as are the steps of
  the destruction sweep and the pair tests of \<^verbatim>\<open>detectCollisions\<close>. \<open>trace\<close> is
  not a variable of the program. Class \<^verbatim>\<open>Background\<close> is defined outside the sources
  at hand; the model records only the deletion of an object's background.
\<close>

datatype event =
    DestroyCalled nat
  | BeforeDestroy nat
  | RemoveParent nat
  | ClearChildren nat
  | DeleteBackground nat
  | DeleteMesh nat
  | InvalidInsert nat
  | AfterDestroy nat
  | DeleteObject nat
  | BeforeUpdate nat
  | AfterUpdate nat
  | PairTested nat nat
  | OnCollision nat nat

record object =
  display :: bool
  mesh :: mesh
  collider :: "mesh option"
  children :: "nat list"
  parent :: "nat option"
  position :: vec
  speed :: vec
  acceleration :: vec

text \<open>
  The static members \<^verbatim>\<open>Object::invalid\<close> and \<^verbatim>\<open>Object::marked\<close> (a stack: the head of
  the list is its top), the static local \<^verbatim>\<open>destroy_shared\<close> of \<^verbatim>\<open>Object::update\<close>, and
  the store.
\<close>

record state =
  heap :: "(nat, object) fmap"
  invalid :: "nat set"
  marked :: "nat list"
  destroy_shared :: bool
  trace :: "event list"

definition log_event :: "event \<Rightarrow> state \<Rightarrow> state" where
  "log_event e st = st\<lparr>trace := trace st @ [e]\<rparr>"

definition put_object :: "nat \<Rightarrow> object \<Rightarrow> state \<Rightarrow> state" where
  "put_object a ob st = st\<lparr>heap := fmupd a ob (heap st)\<rparr>"

text \<open>\<^verbatim>\<open>Object::isValid\<close>: the pointer is not in the registry. \<^verbatim>\<open>NULL\<close> is never inserted.\<close>

definition isValid :: "state \<Rightarrow> nat option \<Rightarrow> bool" where
  "isValid st obj = (case obj of None \<Rightarrow> True | Some a \<Rightarrow> a \<notin> invalid st)"

text \<open>
  The constructor, run on the storage at \<open>this\<close>: the fields from the arguments and
  the member initialisers, then \<^verbatim>\<open>Object::invalid.erase(this)\<close>.
\<close>

definition new_Object :: "state \<Rightarrow> nat \<Rightarrow> vec \<Rightarrow> bool \<Rightarrow> mesh \<Rightarrow> vec \<Rightarrow> vec \<Rightarrow> state" where
  "new_Object st this p_position p_display p_mesh p_speed p_acceleration =
     (put_object this
        \<lparr>display = p_display, mesh = p_mesh, collider = None, children = [], parent = None,
         position = p_position, speed = p_speed, acceleration = p_acceleration\<rparr> st)
       \<lparr>invalid := invalid st - {this}\<rparr>"

text \<open>\<^verbatim>\<open>delete obj\<close>: the destructor inserts \<^verbatim>\<open>this\<close> into the registry, then the storage
  is released.\<close>

definition delete_Object :: "state \<Rightarrow> nat \<Rightarrow> state" where
  "delete_Object st this =
     log_event (DeleteObject this)
       (st\<lparr>invalid := insert this (invalid st), heap := fmdrop this (heap st)\<rparr>)"

text \<open>\<^verbatim>\<open>Object::destroy\<close>.\<close>

definition destroy :: "state \<Rightarrow> nat \<Rightarrow> state option" where
  "destroy st this =
     (case fmlookup (heap st) this of
        None \<Rightarrow> None
      | Some ob \<Rightarrow>
          Some (log_event (DestroyCalled this)
                  ((put_object this (ob\<lparr>display := False\<rparr>) st)\<lparr>marked := this # marked st\<rparr>)))"

text \<open>\<^verbatim>\<open>Object::collides\<close>.\<close>

definition collides :: "state \<Rightarrow> nat \<Rightarrow> bool option" where
  "collides st this =
     (case fmlookup (heap st) this of None \<Rightarrow> None | Some ob \<Rightarrow> Some (collider ob \<noteq> None))"

text \<open>\<^verbatim>\<open>Object::addChild\<close>, \<^verbatim>\<open>removeChild\<close>, \<^verbatim>\<open>setParent\<close> and \<^verbatim>\<open>removeParent\<close>.\<close>

definition addChild :: "state \<Rightarrow> nat option \<Rightarrow> nat option \<Rightarrow> state option" where
  "addChild st this obj =
     (if isValid st this \<and> isValid st obj then
        (case obj of
           None \<Rightarrow> None
         | Some c \<Rightarrow>
            (case fmlookup (heap st) c of
               None \<Rightarrow> None
             | Some cob \<Rightarrow>
                let st1 = put_object c (cob\<lparr>parent := this\<rparr>) st
                in (case this of
                      None \<Rightarrow> None
                    | Some p \<Rightarrow>
                       (case fmlookup (heap st1) p of
                          None \<Rightarrow> None
                        | Some pob \<Rightarrow>
                           Some (put_object p
                                   (pob\<lparr>children := List.insert c (children pob)\<rparr>) st1)))))
      else Some st)"

definition removeChild :: "state \<Rightarrow> nat option \<Rightarrow> nat option \<Rightarrow> state option" where
  "removeChild st this obj =
     (if isValid st this \<and> isValid st obj then
        (case obj of
           None \<Rightarrow> None
         | Some c \<Rightarrow>
            (case fmlookup (heap st) c of
               None \<Rightarrow> None
             | Some cob \<Rightarrow>
                let st1 = put_object c (cob\<lparr>parent := None\<rparr>) st
                in (case this of
                      None \<Rightarrow> None
                    | Some p \<Rightarrow>
                       (case fmlookup (heap st1) p of
                          None \<Rightarrow> None
                        | Some pob \<Rightarrow>
                           Some (put_object p
                                   (pob\<lparr>children := removeAll c (children pob)\<rparr>) st1)))))
      else Some st)"

definition setParent :: "state \<Rightarrow> nat option \<Rightarrow> nat option \<Rightarrow> state option" where
  "setParent st this obj =
     (if isValid st this \<and> isValid st obj then
        (case this of
           None \<Rightarrow> None
         | Some t \<Rightarrow>
            (case fmlookup (heap st) t of
               None \<Rightarrow> None
             | Some tob \<Rightarrow> addChild st (parent tob) obj))
      else Some st)"

definition removeParent :: "state \<Rightarrow> nat option \<Rightarrow> state option" where
  "removeParent st this =
     (if isValid st this then
        (case this of
           None \<Rightarrow> None
         | Some t \<Rightarrow>
            (case fmlookup (heap st) t of
               None \<Rightarrow> None
             | Some tob \<Rightarrow>
                if isValid st (parent tob) then removeChild st (parent tob) this
                else Some st))
      else Some st)"

text \<open>The loop \<^verbatim>\<open>for (const auto &child : obj->getChildren()) child->destroy();\<close>.\<close>

fun destroy_each :: "state \<Rightarrow> nat list \<Rightarrow> state option" where
  "destroy_each st [] = Some st"
| "destroy_each st (child # rest) =
     (case destroy st child of None \<Rightarrow> None | Some st' \<Rightarrow> destroy_each st' rest)"

text \<open>
  The block of \<^verbatim>\<open>Object::delayedDestroy\<close> under \<^verbatim>\<open>if (Object::isValid(obj))\<close>: what the
  sweep does to one entity.
\<close>

definition teardown :: "state \<Rightarrow> nat \<Rightarrow> state option" where
  "teardown st obj =
     (case fmlookup (heap st) obj of
        None \<Rightarrow> None
      | Some _ \<Rightarrow>
         (case removeParent (log_event (RemoveParent obj) (log_event (BeforeDestroy obj) st))
                 (Some obj) of
            None \<Rightarrow> None
          | Some st2 \<Rightarrow>
             (case fmlookup (heap st2) obj of
                None \<Rightarrow> None
              | Some ob2 \<Rightarrow>
                 (case destroy_each st2 (children ob2) of
                    None \<Rightarrow> None
                  | Some st3 \<Rightarrow>
                     (case fmlookup (heap st3) obj of
                        None \<Rightarrow> None
                      | Some ob3 \<Rightarrow>
                          let st4 = log_event (ClearChildren obj)
                                      (put_object obj (ob3\<lparr>children := []\<rparr>) st3);
                              st5 = log_event (DeleteMesh obj)
                                      (log_event (DeleteBackground obj) st4);
                              st6 = log_event (InvalidInsert obj)
                                      (st5\<lparr>invalid := insert obj (invalid st5)\<rparr>);
                              st7 = log_event (AfterDestroy obj) st6
                          in Some (delete_Object st7 obj))))))"

text \<open>The sweep removes the entity it tears down from the store and nothing else, which
  is why the loop of \<^verbatim>\<open>delayedDestroy\<close> ends.\<close>

lemma destroy_dom: "destroy st a = Some st' \<Longrightarrow> fmdom (heap st') = fmdom (heap st)"
  by (auto simp: destroy_def log_event_def put_object_def split: option.splits dest: fmdomI)

lemma destroy_each_dom: "destroy_each st cs = Some st' \<Longrightarrow> fmdom (heap st') = fmdom (heap st)"
  by (induction cs arbitrary: st) (auto split: option.splits dest: destroy_dom)

lemma removeChild_dom: "removeChild st p c = Some st' \<Longrightarrow> fmdom (heap st') = fmdom (heap st)"
  by (auto simp: removeChild_def put_object_def Let_def split: option.splits if_splits dest: fmdomI)

lemma removeParent_dom: "removeParent st t = Some st' \<Longrightarrow> fmdom (heap st') = fmdom (heap st)"
  by (auto simp: removeParent_def split: option.splits if_splits dest: removeChild_dom)

lemma teardown_dom:
  "teardown st obj = Some st' \<Longrightarrow>
     obj |\<in>| fmdom (heap st) \<and> fmdom (heap st') = fmdom (heap st) |-| {|obj|}"
  by (auto simp: teardown_def Let_def delete_Object_def log_event_def put_object_def
           split: option.splits dest!: removeParent_dom destroy_each_dom dest: fmdomI)

text \<open>\<^verbatim>\<open>Object::delayedDestroy\<close>: the loop over the stack \<^verbatim>\<open>Object::marked\<close>.\<close>

function delayedDestroy :: "state \<Rightarrow> state option" where
  "delayedDestroy st =
     (case marked st of
        [] \<Rightarrow> Some st
      | obj # rest \<Rightarrow>
          let st1 = st\<lparr>marked := rest\<rparr>
          in if isValid st1 (Some obj) then
               (case teardown st1 obj of
                  None \<Rightarrow> None
                | Some st2 \<Rightarrow> delayedDestroy st2)
             else delayedDestroy st1)"
  by pat_completeness auto

termination
  apply (relation "measures [\<lambda>st. fcard (fmdom (heap st)), \<lambda>st. length (marked st)]")
  subgoal by simp
  subgoal for st obj rest st1 st2
    using teardown_dom [of st1 obj st2] fcard_fminus1_less [of obj "fmdom (heap st)"]
    by simp
  subgoal for st obj rest st1
    by simp
  done

declare delayedDestroy.simps [simp del]

text \<open>
  \<^verbatim>\<open>Object::update\<close>. The recursion into the children follows the pointers of the store,
  which may form a cycle, so the model counts the depth of the calls: \<open>update fuel\<close>
  is \<open>None\<close> when the calls nest deeper than \<open>fuel\<close>, and also when the code touches
  storage that is not allocated. The arguments \<^verbatim>\<open>now\<close> and \<^verbatim>\<open>tick\<close> are only handed to
  the hooks and are left out. \<open>update_each\<close> is the loop over the snapshot of the
  children.
\<close>

fun update :: "nat \<Rightarrow> state \<Rightarrow> nat \<Rightarrow> state option"
  and update_each :: "nat \<Rightarrow> state \<Rightarrow> nat list \<Rightarrow> state option"
where
  "update 0 st this = None"
| "update (Suc fuel) st this =
     (let destroy_local = destroy_shared st;
          st1 = st\<lparr>destroy_shared := False\<rparr>
      in case (if isValid st1 (Some this) then
                 (case fmlookup (heap st1) this of
                    None \<Rightarrow> None
                  | Some ob \<Rightarrow>
                     let snapshot = children ob;
                         st2 = log_event (BeforeUpdate this) st1;
                         st3 = put_object this
                                 (ob\<lparr>position := vadd (position ob) (speed ob),
                                     speed := vadd (speed ob) (acceleration ob)\<rparr>) st2
                     in (case update_each fuel st3 snapshot of
                           None \<Rightarrow> None
                         | Some st4 \<Rightarrow>
                            (case fmlookup (heap st4) this of
                               None \<Rightarrow> None
                             | Some _ \<Rightarrow> Some (log_event (AfterUpdate this) st4))))
               else Some st1) of
           None \<Rightarrow> None
         | Some st5 \<Rightarrow>
            if destroy_local then delayedDestroy (st5\<lparr>destroy_shared := True\<rparr>)
            else Some st5)"
| "update_each fuel st [] = Some st"
| "update_each fuel st (child # rest) =
     (case update fuel st child of
        None \<Rightarrow> None
      | Some st' \<Rightarrow> update_each fuel st' rest)"

text \<open>\<^verbatim>\<open>Object::detectCollision\<close>, the pair test of two objects: the body is
  \<^verbatim>\<open>return false;\<close>.\<close>

definition Object_detectCollision :: "nat \<Rightarrow> nat \<Rightarrow> bool" where
  "Object_detectCollision this other = False"

text \<open>
  \<^verbatim>\<open>Object::detectCollisions\<close>: \<open>detect_outer\<close> is the \<^verbatim>\<open>while\<close> loop over the children,
  \<open>detect_inner\<close> the \<^verbatim>\<open>for\<close> loop over the children after \<^verbatim>\<open>child\<close>.
\<close>

fun detect_inner :: "state \<Rightarrow> nat \<Rightarrow> nat list \<Rightarrow> state option" where
  "detect_inner st child [] = Some st"
| "detect_inner st child (nxt # rest) =
     (let st1 = log_event (PairTested child nxt) st
      in if Object_detectCollision child nxt then
           (case fmlookup (heap st1) child of
              None \<Rightarrow> None
            | Some _ \<Rightarrow>
               (case fmlookup (heap st1) nxt of
                  None \<Rightarrow> None
                | Some _ \<Rightarrow>
                   detect_inner
                     (log_event (OnCollision nxt child) (log_event (OnCollision child nxt) st1))
                     child rest))
         else detect_inner st1 child rest)"

fun detect_outer :: "state \<Rightarrow> nat list \<Rightarrow> state option" where
  "detect_outer st [] = Some st"
| "detect_outer st (child # rest) =
     (if isValid st (Some child) then
        (case collides st child of
           None \<Rightarrow> None
         | Some c \<Rightarrow>
            if c then
              (case detect_inner st child rest of
                 None \<Rightarrow> None
               | Some st' \<Rightarrow> detect_outer st' rest)
            else detect_outer st rest)
      else detect_outer st rest)"

definition detectCollisions :: "state \<Rightarrow> nat \<Rightarrow> state option" where
  "detectCollisions st this =
     (case fmlookup (heap st) this of
        None \<Rightarrow> None
      | Some ob \<Rightarrow> detect_outer st (children ob))"

section \<open>Programs over the class, and what a run shows\<close>

text \<open>
  The static state at program start: both containers empty, \<^verbatim>\<open>destroy_shared = true\<close>.
\<close>

definition initial_state :: state where
  "initial_state =
     \<lparr>heap = fmempty, invalid = {}, marked = [], destroy_shared = True, trace = []\<rparr>"

text \<open>An object built with the default arguments of the constructor.\<close>

definition plain_Object :: "state \<Rightarrow> nat \<Rightarrow> state" where
  "plain_Object st this = new_Object st this (0, 0, 0) True (Mesh (0, 0, 0)) (0, 0, 0) (0, 0, 0)"

text \<open>
  A client of the class is a list of calls of its public methods. \<open>Update fuel this\<close>
  is \<^verbatim>\<open>this->update(now, tick)\<close> with the bound \<open>fuel\<close> on the depth of the calls.
\<close>

datatype operation =
    Construct nat
  | AddChild "nat option" "nat option"
  | RemoveChild "nat option" "nat option"
  | SetParent "nat option" "nat option"
  | Destroy nat
  | Update nat nat
  | DetectCollisions nat

fun call :: "state \<Rightarrow> operation \<Rightarrow> state option" where
  "call st (Construct this) = Some (plain_Object st this)"
| "call st (AddChild this obj) = addChild st this obj"
| "call st (RemoveChild this obj) = removeChild st this obj"
| "call st (SetParent this obj) = setParent st this obj"
| "call st (Destroy this) = destroy st this"
| "call st (Update fuel this) = update fuel st this"
| "call st (DetectCollisions this) = detectCollisions st this"

fun run :: "state \<Rightarrow> operation list \<Rightarrow> state option" where
  "run st [] = Some st"
| "run st (c # cs) = (case call st c of None \<Rightarrow> None | Some st' \<Rightarrow> run st' cs)"

text \<open>The entities whose storage was released, in the order of release.\<close>

fun freed :: "event list \<Rightarrow> nat list" where
  "freed [] = []"
| "freed (DeleteObject a # es) = a # freed es"
| "freed (e # es) = freed es"

fun is_update_event :: "event \<Rightarrow> bool" where
  "is_update_event (BeforeUpdate _) = True"
| "is_update_event (AfterUpdate _) = True"
| "is_update_event _ = False"

text \<open>What was recorded between two states of one run.\<close>

definition events_since :: "state \<Rightarrow> state \<Rightarrow> event list" where
  "events_since st st' = drop (length (trace st)) (trace st')"

text \<open>The record of the sweep tearing down \<open>obj\<close>, whose children at that moment
  are \<open>cs\<close>.\<close>

definition teardown_events :: "nat \<Rightarrow> nat list \<Rightarrow> event list" where
  "teardown_events obj cs =
     [BeforeDestroy obj, RemoveParent obj] @ map DestroyCalled cs @
     [ClearChildren obj, DeleteBackground obj, DeleteMesh obj, InvalidInsert obj,
      AfterDestroy obj, DeleteObject obj]"

text \<open>The record of a whole sweep: one block per entity torn down, in order.\<close>

definition sweep_events :: "(nat \<times> nat list) list \<Rightarrow> event list" where
  "sweep_events bs = concat (map (\<lambda>(obj, cs). teardown_events obj cs) bs)"


text \<open>A parent with two children: the objects 0, 1 and 2 are built and 1 and 2 are
  added to 0.\<close>

definition family :: state where
  "family = the (run initial_state
     [Construct 0, Construct 1, Construct 2,
      AddChild (Some 0) (Some 1), AddChild (Some 0) (Some 2)])"

text \<open>Reading the tree off a state: whether the child set of \<open>p\<close> holds \<open>c\<close>, the
  back-reference of \<open>c\<close>, and the property that every back-reference is matched by a
  child-set entry.\<close>

definition in_child_set :: "state \<Rightarrow> nat \<Rightarrow> nat \<Rightarrow> bool" where
  "in_child_set st p c =
     (case fmlookup (heap st) p of None \<Rightarrow> False | Some ob \<Rightarrow> c \<in> set (children ob))"

definition parent_of :: "state \<Rightarrow> nat \<Rightarrow> nat option" where
  "parent_of st c = (case fmlookup (heap st) c of None \<Rightarrow> None | Some ob \<Rightarrow> parent ob)"

definition parent_linked :: "state \<Rightarrow> bool" where
  "parent_linked st = (\<forall>c p. parent_of st c = Some p \<longrightarrow> in_child_set st p c)"

text \<open>The calls that change the tree or request destruction.\<close>

fun tree_op :: "operation \<Rightarrow> bool" where
  "tree_op (AddChild _ _) = True"
| "tree_op (RemoveChild _ _) = True"
| "tree_op (SetParent _ _) = True"
| "tree_op (Destroy _) = True"
| "tree_op _ = False"

text \<open>Three objects with no relation between them.\<close>

definition three_objects :: state where
  "three_objects = the (run initial_state [Construct 0, Construct 1, Construct 2])"

text \<open>The pairs \<^verbatim>\<open>detectCollisions\<close> tests, read off its two loops: a child that is valid
  and has a collider is paired with every child after it.\<close>

fun pairs_tested :: "state \<Rightarrow> nat list \<Rightarrow> (nat \<times> nat) list" where
  "pairs_tested st [] = []"
| "pairs_tested st (child # rest) =
     (if isValid st (Some child) \<and> collides st child = Some True
      then map (Pair child) rest else [])
     @ pairs_tested st rest"


text \<open>
  No object of the store has a collider. The field \<^verbatim>\<open>collider\<close> is private, its
  initialiser is \<^verbatim>\<open>NULL\<close>, and neither the constructor nor any member of the class
  assigns it.
\<close>

definition no_collider :: "state \<Rightarrow> bool" where
  "no_collider st = (\<forall>a ob. fmlookup (heap st) a = Some ob \<longrightarrow> collider ob = None)"


section \<open>Facts about the vector kernel\<close>

lemma norm2_nonneg: "0 \<le> norm2 v"
  by (cases v) (simp add: norm2_def dot_def)

lemma norm2_zero_iff: "norm2 (vsub a b) = 0 \<longleftrightarrow> a = b"
proof (cases a, cases b)
  fix a0 a1 a2 b0 b1 b2
  assume a: "a = (a0, a1, a2)" and b: "b = (b0, b1, b2)"
  have "(a0 - b0) * (a0 - b0) + (a1 - b1) * (a1 - b1) + (a2 - b2) * (a2 - b2) = 0
        \<longleftrightarrow> a0 - b0 = 0 \<and> a1 - b1 = 0 \<and> a2 - b2 = 0"
    by (smt (verit) mult_eq_0_iff zero_le_square add_nonneg_eq_0_iff add_nonneg_nonneg)
  then show ?thesis
    by (simp add: a b norm2_def dot_def)
qed

lemma clamp_unit: "0 \<le> clamp t 0 1 \<and> clamp t 0 1 \<le> 1"
  by (simp add: clamp_def)

section \<open>Segment projection\<close>

text \<open>
  C8. \<^verbatim>\<open>distanceRayToPoint\<close> always returns a distance: no call divides by zero.
  With \<open>start = end\<close> it returns the distance from the point to \<open>start\<close> and leaves the
  near point as it was. Otherwise the squared length is not zero, the parameter is
  \<open>t = dot (point - start) (end - start) / norm2 (end - start)\<close>, clamped to \<open>[0, 1]\<close>
  unless the line is infinite, and the result is the distance from the point to
  \<open>start + t * (end - start)\<close>, which is also the near point written back.
\<close>

theorem distanceRayToPoint_total:
  "distanceRayToPoint s e p np unbounded =
     (if s = e then Some (distance p s, np)
      else let t0 = dot (vsub p s) (vsub e s) / norm2 (vsub e s);
               t = (if unbounded then t0 else clamp t0 0 1);
               near = vadd s (smul t (vsub e s))
           in Some (distance p near, near))
   \<and> norm2 (vsub e s) \<noteq> 0 = (s \<noteq> e)
   \<and> 0 \<le> clamp (dot (vsub p s) (vsub e s) / norm2 (vsub e s)) 0 1
   \<and> clamp (dot (vsub p s) (vsub e s) / norm2 (vsub e s)) 0 1 \<le> 1"
proof -
  have z: "norm2 (vsub e s) = 0 \<longleftrightarrow> s = e"
    using norm2_zero_iff [of e s] by auto
  show ?thesis
    using z by (auto simp: distanceRayToPoint_def fdiv_def dot_def Let_def clamp_unit)
qed

section \<open>Facts about the object store\<close>

text \<open>Rules that run the sweep on a state written out in full.\<close>

lemma delayedDestroy_Nil:
  "delayedDestroy \<lparr>heap = h, invalid = i, marked = [], destroy_shared = d, trace = t\<rparr>
     = Some \<lparr>heap = h, invalid = i, marked = [], destroy_shared = d, trace = t\<rparr>"
  by (simp add: delayedDestroy.simps)

lemma delayedDestroy_Cons:
  "delayedDestroy \<lparr>heap = h, invalid = i, marked = obj # rest, destroy_shared = d, trace = t\<rparr>
     = (if obj \<notin> i then
          (case teardown \<lparr>heap = h, invalid = i, marked = rest, destroy_shared = d, trace = t\<rparr> obj of
             None \<Rightarrow> None | Some st2 \<Rightarrow> delayedDestroy st2)
        else delayedDestroy \<lparr>heap = h, invalid = i, marked = rest, destroy_shared = d, trace = t\<rparr>)"
  by (subst delayedDestroy.simps) (simp add: isValid_def)

lemmas object_eval =
  initial_state_def plain_Object_def new_Object_def put_object_def log_event_def
  isValid_def addChild_def removeChild_def removeParent_def setParent_def destroy_def
  teardown_def delete_Object_def delayedDestroy_Nil delayedDestroy_Cons Let_def
  collides_def detectCollisions_def Object_detectCollision_def events_since_def

lemma freed_append: "freed (xs @ ys) = freed xs @ freed ys"
  by (induction xs rule: freed.induct) auto

lemma freed_DestroyCalled: "freed (map DestroyCalled cs) = []"
  by (induction cs) auto

lemma freed_teardown_events: "freed (teardown_events obj cs) = [obj]"
  by (simp add: teardown_events_def freed_append freed_DestroyCalled)

lemma destroy_effect:
  "destroy st a = Some st' \<Longrightarrow>
     trace st' = trace st @ [DestroyCalled a] \<and> marked st' = a # marked st \<and>
     invalid st' = invalid st \<and> destroy_shared st' = destroy_shared st"
  by (auto simp: destroy_def log_event_def put_object_def split: option.splits)

lemma destroy_each_effect:
  "destroy_each st cs = Some st' \<Longrightarrow>
     trace st' = trace st @ map DestroyCalled cs \<and> marked st' = rev cs @ marked st \<and>
     invalid st' = invalid st \<and> destroy_shared st' = destroy_shared st"
proof (induction cs arbitrary: st)
  case Nil
  then show ?case by simp
next
  case (Cons c cs)
  then obtain st1 where 1: "destroy st c = Some st1" and 2: "destroy_each st1 cs = Some st'"
    by (auto split: option.splits)
  show ?case
    using destroy_effect [OF 1] Cons.IH [OF 2] by simp
qed

lemma removeChild_effect:
  "removeChild st p c = Some st' \<Longrightarrow>
     trace st' = trace st \<and> marked st' = marked st \<and>
     invalid st' = invalid st \<and> destroy_shared st' = destroy_shared st"
  by (auto simp: removeChild_def put_object_def Let_def split: option.splits if_splits)

lemma removeParent_effect:
  "removeParent st t = Some st' \<Longrightarrow>
     trace st' = trace st \<and> marked st' = marked st \<and>
     invalid st' = invalid st \<and> destroy_shared st' = destroy_shared st"
  by (auto simp: removeParent_def split: option.splits if_splits dest: removeChild_effect)

lemma teardown_effect:
  assumes "teardown st obj = Some st'"
  shows "\<exists>cs. trace st' = trace st @ teardown_events obj cs \<and> marked st' = rev cs @ marked st \<and>
     invalid st' = insert obj (invalid st) \<and> destroy_shared st' = destroy_shared st"
proof -
  from assms obtain st2 ob2 st3 ob3 where
    rp: "removeParent (log_event (RemoveParent obj) (log_event (BeforeDestroy obj) st)) (Some obj) = Some st2"
    and l2: "fmlookup (heap st2) obj = Some ob2"
    and de: "destroy_each st2 (children ob2) = Some st3"
    and l3: "fmlookup (heap st3) obj = Some ob3"
    and st': "st' = delete_Object (log_event (AfterDestroy obj) (log_event (InvalidInsert obj)
                ((log_event (DeleteMesh obj) (log_event (DeleteBackground obj) (log_event (ClearChildren obj)
                   (put_object obj (ob3\<lparr>children := []\<rparr>) st3))))
                 \<lparr>invalid := insert obj (invalid (log_event (DeleteMesh obj) (log_event (DeleteBackground obj) (log_event (ClearChildren obj)
                   (put_object obj (ob3\<lparr>children := []\<rparr>) st3)))))\<rparr>))) obj"
    by (auto simp: teardown_def Let_def split: option.splits)
  show ?thesis
    using removeParent_effect [OF rp] destroy_each_effect [OF de]
    by (intro exI [of _ "children ob2"])
       (simp add: st' delete_Object_def log_event_def put_object_def teardown_events_def)
qed


lemma teardown_events_no_update: "\<not> is_update_event e" if "e \<in> set (teardown_events obj cs)"
  using that by (auto simp: teardown_events_def)

lemma freed_sweep_events: "freed (sweep_events bs) = map fst bs"
  by (induction bs) (auto simp: sweep_events_def freed_append freed_teardown_events)

lemma sweep_events_no_update: "e \<in> set (sweep_events bs) \<Longrightarrow> \<not> is_update_event e"
  by (auto simp: sweep_events_def dest: teardown_events_no_update)

lemma sweep_events_Cons:
  "sweep_events ((obj, cs) # bs) = teardown_events obj cs @ sweep_events bs"
  by (simp add: sweep_events_def)

lemma events_since_append: "trace st' = trace st @ tr \<Longrightarrow> events_since st st' = tr"
  by (simp add: events_since_def)

text \<open>
  The whole sweep, by induction along its loop: its record is a sequence of complete
  teardown blocks of pairwise different entities, none of them invalid before; these
  are exactly the entities the sweep adds to the registry; every pending entity that
  was valid is among them; the stack ends empty.
\<close>

lemma delayedDestroy_sweep:
  "delayedDestroy st = Some st' \<Longrightarrow>
     \<exists>bs. trace st' = trace st @ sweep_events bs \<and> distinct (map fst bs) \<and>
          set (map fst bs) \<inter> invalid st = {} \<and>
          invalid st' = invalid st \<union> set (map fst bs) \<and> marked st' = [] \<and>
          destroy_shared st' = destroy_shared st \<and>
          set (marked st) - invalid st \<subseteq> set (map fst bs)"
proof (induction st arbitrary: st' rule: delayedDestroy.induct)
  case (1 st)
  show ?case
  proof (cases "marked st")
    case Nil
    with "1.prems" have "st' = st"
      by (simp add: delayedDestroy.simps)
    with Nil show ?thesis
      by (intro exI [of _ "[]"]) (simp add: sweep_events_def)
  next
    case (Cons obj rest)
    define st1 where "st1 = st\<lparr>marked := rest\<rparr>"
    show ?thesis
    proof (cases "isValid st1 (Some obj)")
      case True
      with "1.prems" Cons obtain st2 where td: "teardown st1 obj = Some st2"
        and dd: "delayedDestroy st2 = Some st'"
        by (auto simp: delayedDestroy.simps [of st] st1_def split: option.splits)
      from teardown_effect [OF td] obtain cs where
        t2: "trace st2 = trace st1 @ teardown_events obj cs" and
        m2: "marked st2 = rev cs @ marked st1" and
        i2: "invalid st2 = insert obj (invalid st1)" and
        d2: "destroy_shared st2 = destroy_shared st1"
        by blast
      from "1.IH" (1) [OF Cons st1_def True td dd] obtain bs where
        t': "trace st' = trace st2 @ sweep_events bs" and di: "distinct (map fst bs)" and
        dj: "set (map fst bs) \<inter> invalid st2 = {}" and
        i': "invalid st' = invalid st2 \<union> set (map fst bs)" and m': "marked st' = []" and
        d': "destroy_shared st' = destroy_shared st2" and
        su: "set (marked st2) - invalid st2 \<subseteq> set (map fst bs)"
        by blast
      have v: "obj \<notin> invalid st"
        using True by (simp add: isValid_def st1_def)
      let ?bs = "(obj, cs) # bs"
      have "trace st' = trace st @ sweep_events ?bs"
        using t' t2 by (simp add: st1_def sweep_events_Cons)
      moreover have "distinct (map fst ?bs)"
        using di dj i2 by auto
      moreover have "set (map fst ?bs) \<inter> invalid st = {}"
        using dj i2 v by (auto simp: st1_def)
      moreover have "invalid st' = invalid st \<union> set (map fst ?bs)"
        using i' i2 by (auto simp: st1_def)
      moreover have "set (marked st) - invalid st \<subseteq> set (map fst ?bs)"
        using su m2 i2 Cons by (auto simp: st1_def)
      ultimately show ?thesis
        using m' d' d2 by (intro exI [of _ ?bs]) (simp add: st1_def)
    next
      case False
      with "1.prems" Cons have dd: "delayedDestroy st1 = Some st'"
        by (auto simp: delayedDestroy.simps [of st] st1_def)
      from "1.IH" (2) [OF Cons st1_def False dd] obtain bs where
        "trace st' = trace st1 @ sweep_events bs" "distinct (map fst bs)"
        "set (map fst bs) \<inter> invalid st1 = {}"
        "invalid st' = invalid st1 \<union> set (map fst bs)" "marked st' = []"
        "destroy_shared st' = destroy_shared st1"
        "set (marked st1) - invalid st1 \<subseteq> set (map fst bs)"
        by blast
      moreover have "obj \<in> invalid st"
        using False by (simp add: isValid_def st1_def)
      ultimately show ?thesis
        using Cons by (intro exI [of _ bs]) (auto simp: st1_def)
    qed
  qed
qed










section \<open>Construction and validity\<close>

text \<open>
  C10. Whatever the static state and whatever the address, right after the
  constructor has run on \<open>this\<close> the validity test answers true for it: the
  constructor takes \<open>this\<close> out of the registry of invalid entities and leaves the
  rest of the registry alone. The statement covers an address that the registry still
  held from an entity freed earlier.
\<close>

theorem new_Object_isValid:
  "isValid (new_Object st this p d m s a) (Some this)
   \<and> invalid (new_Object st this p d m s a) = invalid st - {this}
   \<and> fmlookup (heap (new_Object st this p d m s a)) this \<noteq> None"
  by (simp add: new_Object_def isValid_def put_object_def)

section \<open>The destruction sweep\<close>




text \<open>
  C4, as the claim states it, fails: a second destroy request on an entity that is
  already pending pushes it again, and the pending stack holds it twice.
\<close>

theorem destroy_twice_counterexample:
  "map_option marked (run initial_state
     [Construct 0, Construct 1, AddChild (Some 0) (Some 1), Destroy 1, Destroy 1]) = Some [1, 1]"
  by (simp add: object_eval)

text \<open>
  C4, amended. Every destroy request clears the display flag and pushes the entity on
  the pending stack, also when the entity is pending already. The sweep tears an
  entity down only while it is valid and marks it invalid, so the entities one sweep
  releases are pairwise different, none of them was invalid before, all of them are
  invalid afterwards, and the stack is empty: no entity is released twice.
\<close>

theorem destroy_pushes_sweep_frees_once:
  "(destroy st this = Some st1 \<longrightarrow>
      marked st1 = this # marked st \<and>
      (\<exists>ob. fmlookup (heap st1) this = Some ob \<and> \<not> display ob))
   \<and> (delayedDestroy pending = Some st2 \<longrightarrow>
        distinct (freed (events_since pending st2)) \<and>
        set (freed (events_since pending st2)) \<inter> invalid pending = {} \<and>
        set (freed (events_since pending st2)) \<subseteq> invalid st2 \<and>
        marked st2 = [])"
proof (intro conjI impI)
  assume "destroy st this = Some st1"
  then show "marked st1 = this # marked st"
    and "\<exists>ob. fmlookup (heap st1) this = Some ob \<and> \<not> display ob"
    by (auto simp: destroy_def log_event_def put_object_def split: option.splits)
next
  assume "delayedDestroy pending = Some st2"
  from delayedDestroy_sweep [OF this] obtain bs where
    tr: "trace st2 = trace pending @ sweep_events bs"
    and "distinct (map fst bs)" "set (map fst bs) \<inter> invalid pending = {}"
    "invalid st2 = invalid pending \<union> set (map fst bs)" "marked st2 = []"
    by blast
  moreover have "freed (events_since pending st2) = map fst bs"
    using events_since_append [OF tr] by (simp add: freed_sweep_events)
  ultimately show "distinct (freed (events_since pending st2))"
    and "set (freed (events_since pending st2)) \<inter> invalid pending = {}"
    and "set (freed (events_since pending st2)) \<subseteq> invalid st2"
    and "marked st2 = []"
    by auto
qed

theorem destroy_pushes_sweep_frees_once_witness:
  "destroy (the (destroy family 1)) 1 = Some (the (destroy (the (destroy family 1)) 1))
   \<and> marked (the (destroy (the (destroy family 1)) 1)) = [1, 1]
   \<and> delayedDestroy (the (destroy (the (destroy family 1)) 1))
       = Some (the (delayedDestroy (the (destroy (the (destroy family 1)) 1))))
   \<and> freed (events_since (the (destroy (the (destroy family 1)) 1))
        (the (delayedDestroy (the (destroy (the (destroy family 1)) 1))))) = [1]"
  using destroy_pushes_sweep_frees_once
    [of "the (destroy family 1)" 1 "the (destroy (the (destroy family 1)) 1)"
        "the (destroy (the (destroy family 1)) 1)"
        "the (delayedDestroy (the (destroy (the (destroy family 1)) 1)))"]
  by (simp add: family_def object_eval)

section \<open>Facts about update\<close>




section \<open>The sweep runs once, at the end of the outermost update\<close>



section \<open>Facts about the tree\<close>

lemma parent_of_put:
  "parent_of (put_object a ob st) x = (if x = a then parent ob else parent_of st x)"
  by (simp add: parent_of_def put_object_def)

lemma in_child_set_put:
  "in_child_set (put_object a ob st) q x =
     (if q = a then x \<in> set (children ob) else in_child_set st q x)"
  by (simp add: in_child_set_def put_object_def)

lemma parent_of_lookup: "fmlookup (heap st) a = Some ob \<Longrightarrow> parent_of st a = parent ob"
  by (simp add: parent_of_def)

lemma in_child_set_lookup:
  "fmlookup (heap st) a = Some ob \<Longrightarrow> in_child_set st a x = (x \<in> set (children ob))"
  by (simp add: in_child_set_def)

lemma addChild_linked:
  assumes inv: "parent_linked st" and ok: "addChild st p0 c0 = Some st'"
  shows "parent_linked st'"
proof (cases "isValid st p0 \<and> isValid st c0")
  case False
  with ok inv show ?thesis
    by (simp add: addChild_def)
next
  case True
  with ok obtain c cob p pob where c0: "c0 = Some c" and p0: "p0 = Some p"
    and lc: "fmlookup (heap st) c = Some cob"
    and lp: "fmlookup (heap (put_object c (cob\<lparr>parent := Some p\<rparr>) st)) p = Some pob"
    and st': "st' = put_object p (pob\<lparr>children := List.insert c (children pob)\<rparr>)
                      (put_object c (cob\<lparr>parent := Some p\<rparr>) st)"
    by (auto simp: addChild_def Let_def split: option.splits)
  show ?thesis
    unfolding parent_linked_def
  proof (intro allI impI)
    fix x q
    assume pq: "parent_of st' x = Some q"
    show "in_child_set st' q x"
    proof (cases "p = c")
      case True
      then have pob: "pob = cob\<lparr>parent := Some p\<rparr>"
        using lp by (simp add: put_object_def)
      show ?thesis
        using pq inv True in_child_set_lookup [OF lc]
        by (auto simp: st' pob parent_of_put in_child_set_put parent_linked_def
                 split: if_splits)
    next
      case False
      then have lp': "fmlookup (heap st) p = Some pob"
        using lp by (simp add: put_object_def)
      show ?thesis
        using pq inv False parent_of_lookup [OF lp'] in_child_set_lookup [OF lp']
          in_child_set_lookup [OF lc]
        by (auto simp: st' parent_of_put in_child_set_put parent_linked_def
                 split: if_splits)
    qed
  qed
qed

lemma removeChild_linked:
  assumes inv: "parent_linked st" and ok: "removeChild st p0 c0 = Some st'"
  shows "parent_linked st'"
proof (cases "isValid st p0 \<and> isValid st c0")
  case False
  with ok inv show ?thesis
    by (simp add: removeChild_def)
next
  case True
  with ok obtain c cob p pob where c0: "c0 = Some c" and p0: "p0 = Some p"
    and lc: "fmlookup (heap st) c = Some cob"
    and lp: "fmlookup (heap (put_object c (cob\<lparr>parent := None\<rparr>) st)) p = Some pob"
    and st': "st' = put_object p (pob\<lparr>children := removeAll c (children pob)\<rparr>)
                      (put_object c (cob\<lparr>parent := None\<rparr>) st)"
    by (auto simp: removeChild_def Let_def split: option.splits)
  show ?thesis
    unfolding parent_linked_def
  proof (intro allI impI)
    fix x q
    assume pq: "parent_of st' x = Some q"
    show "in_child_set st' q x"
    proof (cases "p = c")
      case True
      then have pob: "pob = cob\<lparr>parent := None\<rparr>"
        using lp by (simp add: put_object_def)
      show ?thesis
        using pq inv True in_child_set_lookup [OF lc]
        by (auto simp: st' pob parent_of_put in_child_set_put parent_linked_def
                 split: if_splits)
    next
      case False
      then have lp': "fmlookup (heap st) p = Some pob"
        using lp by (simp add: put_object_def)
      show ?thesis
        using pq inv False parent_of_lookup [OF lp'] in_child_set_lookup [OF lp']
          in_child_set_lookup [OF lc]
        by (auto simp: st' parent_of_put in_child_set_put parent_linked_def
                 split: if_splits)
    qed
  qed
qed

lemma setParent_linked:
  "parent_linked st \<Longrightarrow> setParent st t c = Some st' \<Longrightarrow> parent_linked st'"
  by (auto simp: setParent_def split: option.splits if_splits dest: addChild_linked)

lemma destroy_linked:
  assumes inv: "parent_linked st" and ok: "destroy st a = Some st'"
  shows "parent_linked st'"
proof -
  from ok obtain ob where l: "fmlookup (heap st) a = Some ob"
    and st': "st' = log_event (DestroyCalled a)
                ((put_object a (ob\<lparr>display := False\<rparr>) st)\<lparr>marked := a # marked st\<rparr>)"
    by (auto simp: destroy_def split: option.splits)
  have "parent_of st' x = parent_of st x" for x
    using l by (auto simp: st' parent_of_def put_object_def log_event_def)
  moreover have "in_child_set st' q x = in_child_set st q x" for q x
    using l by (auto simp: st' in_child_set_def put_object_def log_event_def)
  ultimately show ?thesis
    using inv by (simp add: parent_linked_def)
qed

lemma call_linked:
  "parent_linked st \<Longrightarrow> tree_op c \<Longrightarrow> call st c = Some st' \<Longrightarrow> parent_linked st'"
  by (cases c) (auto dest: addChild_linked removeChild_linked setParent_linked destroy_linked)

section \<open>The entity tree\<close>

text \<open>
  C9, as the claim states it, fails. \<^verbatim>\<open>addChild\<close> does not detach the child from the
  parent it had: after 2 is added to 0 and then to 1, both child sets hold 2 while
  its back-reference names 1. Nor does it look at ancestry: an object added to itself
  is its own child and its own parent.
\<close>

theorem addChild_two_parents_counterexample:
  "run three_objects [AddChild (Some 0) (Some 2), AddChild (Some 1) (Some 2)] \<noteq> None
   \<and> in_child_set (the (run three_objects [AddChild (Some 0) (Some 2), AddChild (Some 1) (Some 2)])) 0 2
   \<and> in_child_set (the (run three_objects [AddChild (Some 0) (Some 2), AddChild (Some 1) (Some 2)])) 1 2
   \<and> parent_of (the (run three_objects [AddChild (Some 0) (Some 2), AddChild (Some 1) (Some 2)])) 2 = Some 1
   \<and> in_child_set (the (run three_objects [AddChild (Some 0) (Some 0)])) 0 0
   \<and> parent_of (the (run three_objects [AddChild (Some 0) (Some 0)])) 0 = Some 0"
  by (simp add: three_objects_def object_eval in_child_set_def parent_of_def)

text \<open>
  C9, amended. An entity has one back-reference, so at most one entity is named as its
  parent; and after every sequence of \<^verbatim>\<open>addChild\<close>, \<^verbatim>\<open>removeChild\<close>, \<^verbatim>\<open>setParent\<close> and
  \<^verbatim>\<open>destroy\<close> calls that runs to its end, an entity whose back-reference names \<open>p\<close>
  is in the child set of \<open>p\<close>, if that held before. Nothing is said about membership
  in several child sets or about cycles.
\<close>

theorem parent_linked_preserved:
  "parent_linked st \<Longrightarrow> list_all tree_op ops \<Longrightarrow> run st ops = Some st' \<Longrightarrow> parent_linked st'"
proof (induction ops arbitrary: st)
  case Nil
  then show ?case by simp
next
  case (Cons c ops)
  from Cons.prems(3) obtain st1 where c: "call st c = Some st1" and r: "run st1 ops = Some st'"
    by (auto split: option.splits)
  from Cons.prems(1,2) c have "parent_linked st1"
    by (auto dest: call_linked)
  with Cons.IH [OF _ _ r] Cons.prems(2) show ?case
    by simp
qed

theorem parent_linked_preserved_witness:
  "parent_linked three_objects
   \<and> list_all tree_op [AddChild (Some 0) (Some 2), AddChild (Some 1) (Some 2),
        SetParent (Some 2) (Some 0), RemoveChild (Some 0) (Some 2), Destroy 2]
   \<and> run three_objects [AddChild (Some 0) (Some 2), AddChild (Some 1) (Some 2),
        SetParent (Some 2) (Some 0), RemoveChild (Some 0) (Some 2), Destroy 2]
       = Some (the (run three_objects [AddChild (Some 0) (Some 2), AddChild (Some 1) (Some 2),
        SetParent (Some 2) (Some 0), RemoveChild (Some 0) (Some 2), Destroy 2]))
   \<and> parent_linked (the (run three_objects [AddChild (Some 0) (Some 2), AddChild (Some 1) (Some 2),
        SetParent (Some 2) (Some 0), RemoveChild (Some 0) (Some 2), Destroy 2]))"
proof -
  have a: "parent_linked three_objects"
    by (simp add: parent_linked_def parent_of_def three_objects_def object_eval)
  have b: "list_all tree_op [AddChild (Some 0) (Some 2), AddChild (Some 1) (Some 2),
        SetParent (Some 2) (Some 0), RemoveChild (Some 0) (Some 2), Destroy 2]"
    by simp
  have c: "run three_objects [AddChild (Some 0) (Some 2), AddChild (Some 1) (Some 2),
        SetParent (Some 2) (Some 0), RemoveChild (Some 0) (Some 2), Destroy 2]
       = Some (the (run three_objects [AddChild (Some 0) (Some 2), AddChild (Some 1) (Some 2),
        SetParent (Some 2) (Some 0), RemoveChild (Some 0) (Some 2), Destroy 2]))"
    by (simp add: three_objects_def object_eval)
  show ?thesis
    using a b c parent_linked_preserved [OF a b c] by blast
qed

section \<open>Facts about the pair loops\<close>


lemma pairs_tested_trace [simp]: "pairs_tested (st\<lparr>trace := t\<rparr>) cs = pairs_tested st cs"
  by (induction cs) (simp_all add: isValid_def collides_def)




lemma no_collider_log [simp]: "no_collider (log_event e st) = no_collider st"
  by (simp add: no_collider_def log_event_def)
















section \<open>Sibling collisions\<close>



section \<open>Facts about the collision tests\<close>

lemma sqrt_le_nonneg: "0 \<le> r \<Longrightarrow> (sqrt x \<le> r) = (x \<le> r * r)"
  by (metis abs_of_nonneg power2_eq_square real_sqrt_abs real_sqrt_le_iff)

lemma distance_commute: "distance a b = distance b a"
proof (cases a, cases b)
  fix a0 a1 a2 b0 b1 b2
  assume "a = (a0, a1, a2)" "b = (b0, b1, b2)"
  moreover have "(a0 - b0) * (a0 - b0) = (b0 - a0) * (b0 - a0)"
    "(a1 - b1) * (a1 - b1) = (b1 - a1) * (b1 - a1)"
    "(a2 - b2) * (a2 - b2) = (b2 - a2) * (b2 - a2)"
    by (simp_all add: algebra_simps)
  ultimately show ?thesis
    by (simp add: distance_def norm_v_def norm2_def dot_def)
qed

lemma vadd_commute: "vadd a b = vadd b a"
  by (cases a, cases b) simp

lemma zero_v_iff: "zero_v v \<longleftrightarrow> v = (0, 0, 0)"
  by (cases v) auto

lemma Mesh_detectCollision_static:
  "zero_v ms \<Longrightarrow> zero_v os \<Longrightarrow>
     Mesh_detectCollision cRR cPR a b mo ms oo os p ti =
       (if ti then detectCollision cRR cPR b a oo os mo ms p False else (False, p))"
  by (simp add: Mesh_detectCollision.simps)

lemma round_detectCollision:
  assumes "getType a = ''polygon2d'' \<or> getType a = ''sphere2d''"
    and "getType b = ''polygon2d'' \<or> getType b = ''sphere2d''"
  shows "detectCollision cRR cPR a b mo ms oo os p ti =
           (if collisionSpheres (vadd mo (getPosition a)) (getRadius a)
                 (vadd oo (getPosition b)) (getRadius b)
            then (True, smul 0.5 (vadd (getPosition a) (getPosition b)))
            else Mesh_detectCollision cRR cPR a b mo ms oo os
                   (smul 0.5 (vadd (getPosition a) (getPosition b))) ti)"
  using assms by (subst detectCollision.simps) (auto simp: Let_def)

section \<open>Circles and polygons, both at rest\<close>

text \<open>
  C5. What the code does for two shapes that are polygons or circles, both at rest: it
  reports a collision exactly when the distance between the two centers, each a position
  plus its offset, is at most the sum of the radii. The contact point it reports is the
  midpoint of the two positions: the offsets, which the test adds, are left out of it.
\<close>

theorem Polygon2D_detectCollision_at_rest:
  assumes "getType a = ''polygon2d'' \<or> getType a = ''sphere2d''"
    and "getType b = ''polygon2d'' \<or> getType b = ''sphere2d''"
    and "zero_v va" and "zero_v vb"
  shows "detectCollision cRR cPR a b oa va ob vb pt True =
           (distance (vadd oa (getPosition a)) (vadd ob (getPosition b))
              \<le> getRadius a + getRadius b,
            smul 0.5 (vadd (getPosition a) (getPosition b)))"
proof -
  let ?hit = "distance (vadd oa (getPosition a)) (vadd ob (getPosition b))
                \<le> getRadius a + getRadius b"
  let ?mid = "smul 0.5 (vadd (getPosition a) (getPosition b))"
  have sw: "collisionSpheres (vadd ob (getPosition b)) (getRadius b)
                (vadd oa (getPosition a)) (getRadius a) = ?hit"
    by (simp add: collisionSpheres_def distance_commute [of "vadd ob (getPosition b)"] add.commute)
  have mid: "smul 0.5 (vadd (getPosition b) (getPosition a)) = ?mid"
    by (simp add: vadd_commute)
  show ?thesis
  proof (cases ?hit)
    case True
    then show ?thesis
      by (simp add: round_detectCollision [OF assms(1,2)] collisionSpheres_def)
  next
    case False
    then show ?thesis
      using sw mid
      by (simp add: round_detectCollision [OF assms(1,2)] round_detectCollision [OF assms(2,1)]
            Mesh_detectCollision_static [OF assms(3,4)] Mesh_detectCollision_static [OF assms(4,3)]
            collisionSpheres_def)
  qed
qed

text \<open>
  Two unit circles, both with position \<open>(0, 0, 0)\<close>, the second with the offset
  \<open>(1.5, 0, 0)\<close>: the centers are \<open>(0, 0, 0)\<close> and \<open>(1.5, 0, 0)\<close>, the circles
  collide, the midpoint of the centers is \<open>(0.75, 0, 0)\<close>, and the contact point
  reported is \<open>(0, 0, 0)\<close>.
\<close>

theorem Polygon2D_detectCollision_at_rest_witness:
  "\<forall>cRR cPR pt.
     (getType (new_Sphere2D (0, 0, 0) 1) = ''polygon2d'' \<or>
      getType (new_Sphere2D (0, 0, 0) 1) = ''sphere2d'')
     \<and> zero_v (0, 0, 0)
     \<and> detectCollision cRR cPR (new_Sphere2D (0, 0, 0) 1) (new_Sphere2D (0, 0, 0) 1)
          (0, 0, 0) (0, 0, 0) (3 / 2, 0, 0) (0, 0, 0) pt True = (True, (0, 0, 0))
     \<and> smul 0.5 (vadd (vadd (0, 0, 0) (getPosition (new_Sphere2D (0, 0, 0) 1)))
                      (vadd (3 / 2, 0, 0) (getPosition (new_Sphere2D (0, 0, 0) 1))))
         = (3 / 4, 0, 0)"
proof (intro allI)
  fix cRR :: rect_rect_test and cPR :: point_rect_test and pt :: vec
  have t: "getType (new_Sphere2D (0, 0, 0) 1) = ''polygon2d'' \<or>
           getType (new_Sphere2D (0, 0, 0) 1) = ''sphere2d''"
    by (simp add: new_Sphere2D_def)
  have z: "zero_v (0, 0, 0)"
    by simp
  show "(getType (new_Sphere2D (0, 0, 0) 1) = ''polygon2d'' \<or>
      getType (new_Sphere2D (0, 0, 0) 1) = ''sphere2d'')
     \<and> zero_v (0, 0, 0)
     \<and> detectCollision cRR cPR (new_Sphere2D (0, 0, 0) 1) (new_Sphere2D (0, 0, 0) 1)
          (0, 0, 0) (0, 0, 0) (3 / 2, 0, 0) (0, 0, 0) pt True = (True, (0, 0, 0))
     \<and> smul 0.5 (vadd (vadd (0, 0, 0) (getPosition (new_Sphere2D (0, 0, 0) 1)))
                      (vadd (3 / 2, 0, 0) (getPosition (new_Sphere2D (0, 0, 0) 1))))
         = (3 / 4, 0, 0)"
    using t z Polygon2D_detectCollision_at_rest [OF t t z z, of cRR cPR "(0, 0, 0)" "(3 / 2, 0, 0)" pt]
    by (simp add: new_Sphere2D_def distance_def norm_v_def norm2_def dot_def sqrt_le_nonneg)
qed

section \<open>Facts about the angle of a velocity\<close>

lemma sqrt_sum_scaled:
  fixes x y :: real
  assumes "x \<noteq> 0"
  shows "sqrt (x * x + y * y) = \<bar>x\<bar> * sqrt (1 + (y / x)\<^sup>2)"
proof -
  have "x * x + y * y = (x * x) * (1 + (y / x)\<^sup>2)"
    using assms by (simp add: power2_eq_square field_simps)
  then show ?thesis
    by (simp add: real_sqrt_mult)
qed

lemma cos_atan2: "sqrt (x * x + y * y) * cos (atan2 y x) = x"
proof -
  have pos: "0 < sqrt (1 + (y / x)\<^sup>2)"
    by (simp add: add_pos_nonneg)
  consider "0 < x" | "x < 0" "0 \<le> y" | "x < 0" "y < 0" | "x = 0"
    by linarith
  then show ?thesis
  proof cases
    case 1
    then show ?thesis
      using pos by (simp add: atan2_def sqrt_sum_scaled cos_arctan)
  next
    case 2
    then show ?thesis
      using pos by (simp add: atan2_def sqrt_sum_scaled cos_arctan)
  next
    case 3
    then show ?thesis
      using pos by (simp add: atan2_def sqrt_sum_scaled cos_arctan)
  next
    case 4
    then show ?thesis
      by (simp add: atan2_def)
  qed
qed

lemma sin_atan2: "sqrt (x * x + y * y) * sin (atan2 y x) = y"
proof -
  have pos: "0 < sqrt (1 + (y / x)\<^sup>2)"
    by (simp add: add_pos_nonneg)
  consider "0 < x" | "x < 0" "0 \<le> y" | "x < 0" "y < 0" | "x = 0"
    by linarith
  then show ?thesis
  proof cases
    case 1
    then show ?thesis
      using pos by (simp add: atan2_def sqrt_sum_scaled sin_arctan)
  next
    case 2
    then show ?thesis
      using pos by (simp add: atan2_def sqrt_sum_scaled sin_arctan)
  next
    case 3
    then show ?thesis
      using pos by (simp add: atan2_def sqrt_sum_scaled sin_arctan)
  next
    case 4
    then show ?thesis
      by (simp add: atan2_def)
  qed
qed

text \<open>The offset of the swept rectangle's corner is at right angles to the velocity.\<close>

lemma perpendicular_atan2:
  "x * cos (atan2 y x + pi / 2) + y * sin (atan2 y x + pi / 2) = 0"
proof -
  let ?t = "atan2 y x" and ?r = "sqrt (x * x + y * y)"
  have "x * cos (?t + pi / 2) + y * sin (?t + pi / 2) = - x * sin ?t + y * cos ?t"
    by (simp add: cos_add sin_add)
  also have "\<dots> = - (?r * cos ?t) * sin ?t + (?r * sin ?t) * cos ?t"
    by (simp only: cos_atan2 sin_atan2)
  also have "\<dots> = 0"
    by simp
  finally show ?thesis .
qed


lemma norm_v_rotated: "norm_v (r * cos t, r * sin t, 0) = \<bar>r\<bar>"
proof -
  have "cos t * cos t + sin t * sin t = 1"
    by (rule sin_cos_squared_add3)
  then have "r * cos t * (r * cos t) + r * sin t * (r * sin t) = r * r"
    by algebra
  then show ?thesis
    by (simp add: norm_v_def norm2_def dot_def)
qed

section \<open>The continuous phase\<close>

text \<open>
  C6. The gate of the continuous phase: a velocity counts as zero exactly when its three
  components are 0. With both velocities zero \<^verbatim>\<open>Mesh::detectCollision\<close> is the retry
  alone and no swept shape enters. With a velocity that is not zero the method is the
  continuous phase followed by the retry: a receiver without a swept shape goes to the
  retry at once; otherwise the swept shape of the receiver is tested against the other
  operand, taken at rest at its place, and a hit is the result; failing that, when the
  other operand has a swept shape too, the two swept shapes are tested against each
  other, and a hit is the result; failing that, the retry.

  The swept shape of a polygon or circle with center \<open>p\<close> and radius \<open>r\<close> at
  velocity \<open>v\<close> is the rectangle \<open>R\<close> of width \<open>norm v\<close> (its extent along the
  motion), height \<open>2 * r\<close> and angle \<open>atan2 (v[1], v[0])\<close>. Its reference corner
  lies at distance \<open>|r|\<close> from \<open>p\<close>, in a direction at right angles to \<open>v\<close>; the
  corner below it is the mirror image across \<open>p\<close>; the edge from the reference corner
  has length \<open>norm v\<close> in the direction of the angle, and for a velocity in the plane
  that edge is \<open>v\<close> itself.
\<close>

theorem continuous_phase_and_swept_rectangle:
  "zero_v (x, y, z) = (x = 0 \<and> y = 0 \<and> z = 0)
   \<and> Mesh_detectCollision cRR cPR a b mo (0, 0, 0) oo (0, 0, 0) pt ti =
          (if ti then detectCollision cRR cPR b a oo (0, 0, 0) mo (0, 0, 0) pt False
           else (False, pt))
   \<and> (\<not> (zero_v ms \<and> zero_v os) \<longrightarrow>
        Mesh_detectCollision cRR cPR a b mo ms oo os pt ti =
          (case getCollisionSpace a ms of
             None \<Rightarrow>
               if ti then detectCollision cRR cPR b a oo os mo ms pt False else (False, pt)
           | Some sa \<Rightarrow>
               let first = detectCollision cRR cPR sa b mo (0, 0, 0) oo os pt ti
               in if fst first then (True, snd first)
                  else (case getCollisionSpace b os of
                          None \<Rightarrow>
                            if ti then detectCollision cRR cPR b a oo os mo ms (snd first) False
                            else (False, snd first)
                        | Some sb \<Rightarrow>
                            let second = detectCollision cRR cPR sa sb mo (0, 0, 0) oo (0, 0, 0)
                                           (snd first) ti
                            in if fst second then (True, snd second)
                               else if ti
                                    then detectCollision cRR cPR b a oo os mo ms (snd second) False
                                    else (False, snd second))))
   \<and> (let R = Polygon2D_getCollisionSpace p r v
      in getCollisionSpace (Polygon2D p r ang n) v = Some R
       \<and> getCollisionSpace (Sphere2D p r ang n) v = Some R
       \<and> getType R = ''rectangle2d''
       \<and> getWidth R = norm_v v
       \<and> getHeight R = 2 * r
       \<and> getAngle R = atan2 (fst (snd v)) (fst v)
       \<and> norm_v (vsub (getPosition R) p) = \<bar>r\<bar>
       \<and> dot (vsub (getPosition R) p) v = 0
       \<and> vsub (getBottomLeftPosition R) p = vsub p (getPosition R)
       \<and> vsub (getTopRightPosition R) (getPosition R)
           = smul (norm_v v) (cos (getAngle R), sin (getAngle R), 0)
       \<and> (snd (snd v) = 0 \<longrightarrow> vsub (getTopRightPosition R) (getPosition R) = v))"
proof (intro conjI impI)
  show "zero_v (x, y, z) = (x = 0 \<and> y = 0 \<and> z = 0)"
    by simp
  show "Mesh_detectCollision cRR cPR a b mo (0, 0, 0) oo (0, 0, 0) pt ti =
          (if ti then detectCollision cRR cPR b a oo (0, 0, 0) mo (0, 0, 0) pt False
           else (False, pt))"
    by (simp add: Mesh_detectCollision_static)
  show "Mesh_detectCollision cRR cPR a b mo ms oo os pt ti =
          (case getCollisionSpace a ms of
             None \<Rightarrow>
               if ti then detectCollision cRR cPR b a oo os mo ms pt False else (False, pt)
           | Some sa \<Rightarrow>
               let first = detectCollision cRR cPR sa b mo (0, 0, 0) oo os pt ti
               in if fst first then (True, snd first)
                  else (case getCollisionSpace b os of
                          None \<Rightarrow>
                            if ti then detectCollision cRR cPR b a oo os mo ms (snd first) False
                            else (False, snd first)
                        | Some sb \<Rightarrow>
                            let second = detectCollision cRR cPR sa sb mo (0, 0, 0) oo (0, 0, 0)
                                           (snd first) ti
                            in if fst second then (True, snd second)
                               else if ti
                                    then detectCollision cRR cPR b a oo os mo ms (snd second) False
                                    else (False, snd second)))"
    if "\<not> (zero_v ms \<and> zero_v os)"
    using that
    by (subst Mesh_detectCollision.simps)
       (simp add: Let_def case_prod_beta split: option.splits)
  obtain p0 p1 p2 where p: "p = (p0, p1, p2)"
    by (cases p)
  obtain v0 v1 v2 where v: "v = (v0, v1, v2)"
    by (cases v)
  let ?t = "atan2 v1 v0"
  have perp: "r * cos (?t + pi / 2) * v0 + r * sin (?t + pi / 2) * v1 = 0"
  proof -
    have "r * cos (?t + pi / 2) * v0 + r * sin (?t + pi / 2) * v1
          = r * (v0 * cos (?t + pi / 2) + v1 * sin (?t + pi / 2))"
      by (simp add: algebra_simps)
    then show ?thesis
      by (simp only: perpendicular_atan2 mult_zero_right)
  qed
  have mirror: "2 * r * cos (?t - pi / 2) = - (2 * (r * cos (?t + pi / 2)))"
    "2 * r * sin (?t - pi / 2) = - (2 * (r * sin (?t + pi / 2)))"
    by (simp_all add: cos_add sin_add cos_diff sin_diff)
  have planar: "v2 = 0 \<Longrightarrow> sqrt (v0 * v0 + v1 * v1 + v2 * v2) * cos ?t = v0 \<and>
                  sqrt (v0 * v0 + v1 * v1 + v2 * v2) * sin ?t = v1"
    using cos_atan2 [of v0 v1] sin_atan2 [of v0 v1] by simp
  have nd: "norm_v (r * cos (?t + pi / 2), r * sin (?t + pi / 2), 0) = \<bar>r\<bar>"
    by (rule norm_v_rotated)
  show "let R = Polygon2D_getCollisionSpace p r v
      in getCollisionSpace (Polygon2D p r ang n) v = Some R
       \<and> getCollisionSpace (Sphere2D p r ang n) v = Some R
       \<and> getType R = ''rectangle2d''
       \<and> getWidth R = norm_v v
       \<and> getHeight R = 2 * r
       \<and> getAngle R = atan2 (fst (snd v)) (fst v)
       \<and> norm_v (vsub (getPosition R) p) = \<bar>r\<bar>
       \<and> dot (vsub (getPosition R) p) v = 0
       \<and> vsub (getBottomLeftPosition R) p = vsub p (getPosition R)
       \<and> vsub (getTopRightPosition R) (getPosition R)
           = smul (norm_v v) (cos (getAngle R), sin (getAngle R), 0)
       \<and> (snd (snd v) = 0 \<longrightarrow> vsub (getTopRightPosition R) (getPosition R) = v)"
    using perp mirror planar nd
    by (simp add: p v Polygon2D_getCollisionSpace_def new_Rectangle2D_def DEG90_def Let_def
          dot_def norm_v_def norm2_def)
qed


lemmas collision_eval =
  detectCollision.simps Mesh_detectCollision.simps collisionRectangleCircle2D_def
  collisionRaySphere_def distanceRayToPoint_def collisionSpheres_def fdiv_def clamp_def
  distance_def norm_v_def norm2_def dot_def getTopLeftPosition_def
  Polygon2D_getCollisionSpace_def new_Rectangle2D_def new_Sphere2D_def new_Polygon2D_def
  DEG90_def atan2_def sqrt_le_nonneg Let_def

text \<open>
  A unit circle at the origin moving by \<open>(2, 0, 0)\<close> sweeps the rectangle with the
  corners \<open>(0, 1)\<close>, \<open>(2, 1)\<close>, \<open>(2, -1)\<close>, \<open>(0, -1)\<close>. A unit circle at rest at
  \<open>(2.5, 0, 0)\<close> does not touch the first circle and does touch the rectangle: the
  continuous phase reports the collision, whatever the two tests that are not in the
  sources answer. With both circles at rest no collision is reported. Against a plain
  \<^verbatim>\<open>Mesh\<close> at the same place the swept rectangle is tested and finds nothing.
\<close>

theorem continuous_phase_and_swept_rectangle_witness:
  "\<forall>cRR cPR pt.
     \<not> (zero_v (2, 0, 0) \<and> zero_v (0, 0, 0))
     \<and> getCollisionSpace (new_Sphere2D (0, 0, 0) 1) (2, 0, 0)
         = Some (Rectangle2D (0, 1, 0) 2 2 0 (2, 1, 0) (0, - 1, 0) (2, - 1, 0))
     \<and> fst (detectCollision cRR cPR (Rectangle2D (0, 1, 0) 2 2 0 (2, 1, 0) (0, - 1, 0) (2, - 1, 0))
              (new_Sphere2D (5 / 2, 0, 0) 1) (0, 0, 0) (0, 0, 0) (0, 0, 0) (0, 0, 0) pt True)
     \<and> fst (Mesh_detectCollision cRR cPR (new_Sphere2D (0, 0, 0) 1)
              (new_Sphere2D (5 / 2, 0, 0) 1) (0, 0, 0) (2, 0, 0) (0, 0, 0) (0, 0, 0) pt True)
     \<and> \<not> fst (Mesh_detectCollision cRR cPR (new_Sphere2D (0, 0, 0) 1)
              (new_Sphere2D (5 / 2, 0, 0) 1) (0, 0, 0) (0, 0, 0) (0, 0, 0) (0, 0, 0) pt True)
     \<and> \<not> fst (Mesh_detectCollision cRR cPR (new_Sphere2D (0, 0, 0) 1)
              (Mesh (5 / 2, 0, 0)) (0, 0, 0) (2, 0, 0) (0, 0, 0) (0, 0, 0) pt True)
     \<and> snd (snd (2 :: real, 0 :: real, 0 :: real)) = 0"
proof (intro allI)
  fix cRR :: rect_rect_test and cPR :: point_rect_test and pt :: vec
  let ?A = "new_Sphere2D (0, 0, 0) 1" and ?B = "new_Sphere2D (5 / 2, 0, 0) 1"
  let ?SA = "Rectangle2D (0, 1, 0) 2 2 0 (2, 1, 0) (0, - 1, 0) (2, - 1, 0)"
  have g: "\<not> (zero_v (2, 0, 0) \<and> zero_v (0, 0, 0))"
    by simp
  have s: "getCollisionSpace ?A (2, 0, 0) = Some ?SA"
    by (simp add: collision_eval)
  have h: "fst (detectCollision cRR cPR ?SA ?B (0, 0, 0) (0, 0, 0) (0, 0, 0) (0, 0, 0) pt True)"
    by (simp add: collision_eval)
  have moving: "fst (Mesh_detectCollision cRR cPR ?A ?B (0, 0, 0) (2, 0, 0) (0, 0, 0) (0, 0, 0) pt True)"
    using continuous_phase_and_swept_rectangle
            [where cRR = cRR and cPR = cPR and a = ?A and b = ?B and mo = "(0, 0, 0)"
               and ms = "(2, 0, 0)" and oo = "(0, 0, 0)" and os = "(0, 0, 0)" and pt = pt
               and ti = True, THEN conjunct2, THEN conjunct2, THEN conjunct1]
          g s h
    by (simp add: Let_def)
  have resting: "\<not> fst (Mesh_detectCollision cRR cPR ?A ?B (0, 0, 0) (0, 0, 0) (0, 0, 0) (0, 0, 0) pt True)"
    by (simp add: collision_eval)
  have plain: "\<not> fst (Mesh_detectCollision cRR cPR ?A (Mesh (5 / 2, 0, 0)) (0, 0, 0) (2, 0, 0)
                        (0, 0, 0) (0, 0, 0) pt True)"
    by (simp add: collision_eval)
  have pl: "snd (snd (2 :: real, 0 :: real, 0 :: real)) = 0"
    by simp
  from g s h moving resting plain pl
  show "\<not> (zero_v (2, 0, 0) \<and> zero_v (0, 0, 0))
     \<and> getCollisionSpace ?A (2, 0, 0) = Some ?SA
     \<and> fst (detectCollision cRR cPR ?SA ?B (0, 0, 0) (0, 0, 0) (0, 0, 0) (0, 0, 0) pt True)
     \<and> fst (Mesh_detectCollision cRR cPR ?A ?B (0, 0, 0) (2, 0, 0) (0, 0, 0) (0, 0, 0) pt True)
     \<and> \<not> fst (Mesh_detectCollision cRR cPR ?A ?B (0, 0, 0) (0, 0, 0) (0, 0, 0) (0, 0, 0) pt True)
     \<and> \<not> fst (Mesh_detectCollision cRR cPR ?A (Mesh (5 / 2, 0, 0)) (0, 0, 0) (2, 0, 0)
                 (0, 0, 0) (0, 0, 0) pt True)
     \<and> snd (snd (2 :: real, 0 :: real, 0 :: real)) = 0"
    by blast
qed

section \<open>Symmetry of the collision test\<close>





section \<open>Facts about the test at rest\<close>

lemma detectCollision_narrow_phase:
  "detectCollision cRR cPR a b mo ms oo os pt ti =
     (if fst (narrow_phase cRR cPR a b mo oo pt)
      then (True, snd (narrow_phase cRR cPR a b mo oo pt))
      else Mesh_detectCollision cRR cPR a b mo ms oo os
             (snd (narrow_phase cRR cPR a b mo oo pt)) ti)"
  by (subst detectCollision.simps)
     (auto simp: narrow_phase_def Let_def split: prod.splits)

lemma fst_collisionRaySphere: "fst (collisionRaySphere s e c r q u) = ray_hit s e c r u"
  by (simp add: ray_hit_def collisionRaySphere_def distanceRayToPoint_def fdiv_def Let_def)

lemma fst_collisionRectangleCircle2D:
  "fst (collisionRectangleCircle2D cPR c1 c2 c3 c4 c r q) =
     (ray_hit c1 c4 c r False \<or> ray_hit c4 c3 c r False \<or> ray_hit c2 c3 c r False
      \<or> ray_hit c1 c2 c r False \<or> cPR c1 c2 c3 c4 c)"
  by (simp add: collisionRectangleCircle2D_def case_prod_beta fst_collisionRaySphere)

lemma fst_narrow_phase:
  assumes "\<And>a1 a2 a3 a4 b1 b2 b3 b4 q q'.
             fst (cRR a1 a2 a3 a4 b1 b2 b3 b4 q) = fst (cRR a1 a2 a3 a4 b1 b2 b3 b4 q')"
  shows "fst (narrow_phase cRR cPR a b mo oo q) = fst (narrow_phase cRR cPR a b mo oo q')"
  using assms [of _ _ _ _ _ _ _ _ q q']
  by (simp add: narrow_phase_def fst_collisionRectangleCircle2D)

section \<open>Symmetry at rest\<close>

text \<open>
  X1. With both velocities zero the collision test is symmetric for every pair of
  shapes: the call is the test for the pair at hand followed, when that finds nothing,
  by the test for the swapped pair with retries disabled. The rectangle test that is
  not in the sources is assumed not to let the contact point passed in decide its
  verdict.
\<close>

theorem detectCollision_at_rest_symmetric:
  assumes "zero_v va" and "zero_v vb"
    and "\<And>a1 a2 a3 a4 b1 b2 b3 b4 q q'.
           fst (cRR a1 a2 a3 a4 b1 b2 b3 b4 q) = fst (cRR a1 a2 a3 a4 b1 b2 b3 b4 q')"
  shows "fst (detectCollision cRR cPR a b oa va ob vb pt True)
           = fst (detectCollision cRR cPR b a ob vb oa va pt True)"
proof -
  have indep: "fst (narrow_phase cRR cPR x y ox oy q) = fst (narrow_phase cRR cPR x y ox oy q')"
    for x y ox oy q q'
    by (rule fst_narrow_phase [OF assms(3)])
  have once: "fst (detectCollision cRR cPR x y ox vx oy vy q False)
                = fst (narrow_phase cRR cPR x y ox oy q)"
    if "zero_v vx" "zero_v vy" for x y ox vx oy vy q
    by (simp add: detectCollision_narrow_phase [of _ _ x y]
          Mesh_detectCollision_static [OF that])
  have twice: "fst (detectCollision cRR cPR x y ox vx oy vy q True)
                = (fst (narrow_phase cRR cPR x y ox oy q) \<or> fst (narrow_phase cRR cPR y x oy ox q))"
    if "zero_v vx" "zero_v vy" for x y ox vx oy vy q
    using indep [of y x oy ox "snd (narrow_phase cRR cPR x y ox oy q)" q]
    by (simp add: detectCollision_narrow_phase [of _ _ x y _ _ _ _ _ True]
          Mesh_detectCollision_static [OF that] once [OF that(2,1)])
  show ?thesis
    using twice [OF assms(1,2)] twice [OF assms(2,1)] by auto
qed


text \<open>A rectangle from \<open>x = 0\<close> to \<open>x = 2\<close> and a unit circle at \<open>(2.5, 0, 0)\<close>,
  both at rest: either order reports the collision.\<close>

theorem detectCollision_at_rest_symmetric_witness:
  "zero_v (0, 0, 0)
   \<and> (\<forall>a1 a2 a3 a4 b1 b2 b3 b4 q q'.
         fst (collisionRectangles2D a1 a2 a3 a4 b1 b2 b3 b4 q)
           = fst (collisionRectangles2D a1 a2 a3 a4 b1 b2 b3 b4 q'))
   \<and> fst (detectCollision collisionRectangles2D collisionPointRectangle2D
            (new_Rectangle2D (0, 1, 0) 2 2 0) (new_Sphere2D (5 / 2, 0, 0) 1)
            (0, 0, 0) (0, 0, 0) (0, 0, 0) (0, 0, 0) (0, 0, 0) True)
   \<and> fst (detectCollision collisionRectangles2D collisionPointRectangle2D
            (new_Sphere2D (5 / 2, 0, 0) 1) (new_Rectangle2D (0, 1, 0) 2 2 0)
            (0, 0, 0) (0, 0, 0) (0, 0, 0) (0, 0, 0) (0, 0, 0) True)"
proof -
  have z: "zero_v (0, 0, 0)"
    by simp
  have i: "fst (collisionRectangles2D a1 a2 a3 a4 b1 b2 b3 b4 q)
             = fst (collisionRectangles2D a1 a2 a3 a4 b1 b2 b3 b4 q')"
    for a1 a2 a3 a4 b1 b2 b3 b4 q q'
    by (simp add: collisionRectangles2D_def)
  have h: "fst (detectCollision collisionRectangles2D collisionPointRectangle2D
            (new_Sphere2D (5 / 2, 0, 0) 1) (new_Rectangle2D (0, 1, 0) 2 2 0)
            (0, 0, 0) (0, 0, 0) (0, 0, 0) (0, 0, 0) (0, 0, 0) True)"
    by (simp add: collision_eval)
  from detectCollision_at_rest_symmetric
         [of "(0, 0, 0)" "(0, 0, 0)" collisionRectangles2D collisionPointRectangle2D
            "new_Rectangle2D (0, 1, 0) 2 2 0" "new_Sphere2D (5 / 2, 0, 0) 1"
            "(0, 0, 0)" "(0, 0, 0)" "(0, 0, 0)", OF z z i] h z i
  show ?thesis
    by blast
qed

section \<open>A shape of no known kind\<close>

text \<open>
  X2. A plain \<^verbatim>\<open>Mesh\<close> collides with nothing, in either position, at any velocities:
  no test names its kind and it has no swept shape.
\<close>

theorem Mesh_never_collides:
  "\<not> fst (detectCollision cRR cPR (Mesh p) b oa va ob vb pt ti)
   \<and> \<not> fst (detectCollision cRR cPR a (Mesh p) oa va ob vb pt ti)"
proof
  show "\<not> fst (detectCollision cRR cPR (Mesh p) b oa va ob vb pt ti)"
    by (cases b)
       (simp_all add: detectCollision.simps Mesh_detectCollision.simps
          Polygon2D_getCollisionSpace_def new_Rectangle2D_def Let_def)
  show "\<not> fst (detectCollision cRR cPR a (Mesh p) oa va ob vb pt ti)"
    by (cases a)
       (simp_all add: detectCollision.simps Mesh_detectCollision.simps
          Polygon2D_getCollisionSpace_def new_Rectangle2D_def Let_def)
qed

theorem Mesh_never_collides_witness:
  "\<forall>cRR cPR pt.
     \<not> fst (detectCollision cRR cPR (Mesh (0, 0, 0)) (new_Sphere2D (0, 0, 0) 1)
              (0, 0, 0) (1, 0, 0) (0, 0, 0) (0, 0, 0) pt True)
     \<and> \<not> fst (detectCollision cRR cPR (new_Sphere2D (0, 0, 0) 1) (Mesh (0, 0, 0))
              (0, 0, 0) (1, 0, 0) (0, 0, 0) (0, 0, 0) pt True)"
  using Mesh_never_collides by blast

section \<open>Small facts of the kernel and of one tick\<close>

text \<open>X3. The distance from a point to itself is 0.\<close>

theorem distance_self: "distance p p = 0"
  by (cases p) (simp add: distance_def norm_v_def norm2_def dot_def)

text \<open>
  X4. One tick of a valid object without children, in a call that finds the flag down:
  the position grows by the velocity and the velocity by the acceleration, the old
  velocity being the one added to the position.
\<close>

theorem update_integrates:
  assumes "fmlookup (heap st) this = Some ob" and "this \<notin> invalid st"
    and "children ob = []" and "\<not> destroy_shared st"
  shows "\<exists>st'. update (Suc fuel) st this = Some st'
           \<and> fmlookup (heap st') this =
               Some (ob\<lparr>position := vadd (position ob) (speed ob),
                        speed := vadd (speed ob) (acceleration ob)\<rparr>)"
  using assms
  by (simp add: isValid_def put_object_def log_event_def Let_def)

theorem update_integrates_witness:
  "fmlookup (heap (new_Object initial_state 0 (0, 0, 0) True (Mesh (0, 0, 0)) (1, 0, 0) (0, - 1, 0)
                     \<lparr>destroy_shared := False\<rparr>)) 0
     = Some \<lparr>display = True, mesh = Mesh (0, 0, 0), collider = None, children = [], parent = None,
             position = (0, 0, 0), speed = (1, 0, 0), acceleration = (0, - 1, 0)\<rparr>
   \<and> 0 \<notin> invalid (new_Object initial_state 0 (0, 0, 0) True (Mesh (0, 0, 0)) (1, 0, 0) (0, - 1, 0)
                     \<lparr>destroy_shared := False\<rparr>)
   \<and> map_option (\<lambda>ob. (position ob, speed ob))
        (fmlookup (heap (the (update (Suc 0)
           (new_Object initial_state 0 (0, 0, 0) True (Mesh (0, 0, 0)) (1, 0, 0) (0, - 1, 0)
              \<lparr>destroy_shared := False\<rparr>) 0))) 0)
       = Some ((1, 0, 0), (1, - 1, 0))"
  using update_integrates
    [of "new_Object initial_state 0 (0, 0, 0) True (Mesh (0, 0, 0)) (1, 0, 0) (0, - 1, 0)
           \<lparr>destroy_shared := False\<rparr>" 0
        "\<lparr>display = True, mesh = Mesh (0, 0, 0), collider = None, children = [], parent = None,
             position = (0, 0, 0), speed = (1, 0, 0), acceleration = (0, - 1, 0)\<rparr>" 0]
  by (simp add: object_eval)

section \<open>Destroying an entity that has no parent\<close>

text \<open>
  X5. The sweep detaches an entity through its parent pointer after
  \<^verbatim>\<open>isValid(this->parent)\<close>, and \<^verbatim>\<open>isValid(NULL)\<close> is true. For a valid entity without a
  parent the sweep therefore calls \<^verbatim>\<open>removeChild\<close> through \<^verbatim>\<open>NULL\<close>, which touches
  the child set of no object: the teardown, and with it the sweep that meets such an
  entity on top of the stack, has no defined result.
\<close>

theorem teardown_without_parent_undefined:
  assumes "fmlookup (heap st) obj = Some ob" and "parent ob = None" and "obj \<notin> invalid st"
  shows "teardown st obj = None
         \<and> (marked st = obj # rest \<longrightarrow> delayedDestroy st = None)"
proof -
  have t: "teardown s obj = None"
    if "fmlookup (heap s) obj = Some ob" "obj \<notin> invalid s" for s
    using that assms(2)
    by (simp add: teardown_def removeParent_def removeChild_def isValid_def log_event_def
          put_object_def Let_def)
  have "delayedDestroy st = None" if "marked st = obj # rest"
    using that assms t [of "st\<lparr>marked := rest\<rparr>"]
    by (subst delayedDestroy.simps) (simp add: isValid_def)
  with t [OF assms(1,3)] show ?thesis
    by simp
qed

theorem teardown_without_parent_undefined_witness:
  "map_option parent (fmlookup (heap (the (run initial_state [Construct 0, Destroy 0]))) 0)
     = Some None
   \<and> 0 \<notin> invalid (the (run initial_state [Construct 0, Destroy 0]))
   \<and> marked (the (run initial_state [Construct 0, Destroy 0])) = [0]
   \<and> delayedDestroy (the (run initial_state [Construct 0, Destroy 0])) = None
   \<and> run initial_state [Construct 0, Destroy 0, Update (Suc 0) 0] = None"
  using teardown_without_parent_undefined
    [of "the (run initial_state [Construct 0, Destroy 0])" 0
        "the (fmlookup (heap (the (run initial_state [Construct 0, Destroy 0]))) 0)" "[]"]
  by (simp add: object_eval)

end
